theory Spec2Isabelle
  imports
    Complex_Main
    "HOL-Library.AList"
    "HOL-Library.Multiset"
    "HOL-Library.Char_ord"
    "HOL-Library.List_Lexorder"
    "HOL-Library.Option_ord"
    "HOL-Library.Product_Lexorder"
begin

section \<open>asv: environments and results\<close>

text \<open>
  A shallow embedding of \<^verbatim>\<open>asv/environment.py\<close> and \<^verbatim>\<open>asv/results.py\<close>.

  Python strings are \<^typ>\<open>string\<close>; they are ordered by code point, which here is the
  lexicographic order of \<^typ>\<open>char list\<close>. A \<^verbatim>\<open>dict\<close> whose iteration order the code
  observes (the requirement mapping, the matrix) is an association list in insertion
  order: a dictionary has one entry per key, so a well-formed one has distinct keys.
  \<^verbatim>\<open>d[k] = v\<close> is \<^const>\<open>AList.update\<close> (replace in place, or append), \<^verbatim>\<open>del d[k]\<close> is
  \<^const>\<open>AList.delete\<close>. A dictionary that is only looked up and stored is a map.
  \<^verbatim>\<open>None\<close> as a requirement's version is \<^const>\<open>None\<close>.

  Exceptions are values of \<open>error\<close>; \<open>OSError\<close> stands for the errors of the operating
  system that have no constructor of their own, such as \<^verbatim>\<open>PermissionError\<close>. Console
  logging is not modelled.
\<close>

subsection \<open>Strings and paths\<close>

text \<open>\<^verbatim>\<open>sep.join(xs)\<close>.\<close>

fun join :: "string \<Rightarrow> string list \<Rightarrow> string" where
  "join sep [] = []"
| "join sep [x] = x"
| "join sep (x # y # ys) = x @ sep @ join sep (y # ys)"

text \<open>\<^verbatim>\<open>s.startswith(p)\<close> and \<^verbatim>\<open>s.endswith(p)\<close>.\<close>

definition startswith :: "string \<Rightarrow> string \<Rightarrow> bool" where
  "startswith s p = (take (length p) s = p)"

definition endswith :: "string \<Rightarrow> string \<Rightarrow> bool" where
  "endswith s p = (length p \<le> length s \<and> drop (length s - length p) s = p)"

text \<open>\<^verbatim>\<open>s.split(c)\<close> for a separator of one character: never the empty list.\<close>

fun split :: "char \<Rightarrow> string \<Rightarrow> string list" where
  "split c [] = [[]]"
| "split c (x # xs) =
     (if x = c then [] # split c xs
      else (case split c xs of [] \<Rightarrow> [[x]] | w # ws \<Rightarrow> (x # w) # ws))"

text \<open>
  \<^verbatim>\<open>os.path.join(a, b)\<close> of \<^verbatim>\<open>posixpath\<close>: an absolute \<open>b\<close> discards \<open>a\<close>; the separator
  is inserted unless \<open>a\<close> is empty or already ends with one.
\<close>

definition path_join :: "string \<Rightarrow> string \<Rightarrow> string" where
  "path_join a b =
     (if startswith b ''/'' then b
      else if a = [] \<or> endswith a ''/'' then a @ b
      else a @ ''/'' @ b)"

subsection \<open>Errors\<close>

datatype error =
    RuntimeError string
  | KeyError string
  | ProcessError
  | FileNotFoundError
  | FileExistsError
  | NotADirectoryError
  | OSError
  | CodecError
  | NotFoundError
  | SchemaError

subsection \<open>Environment identity\<close>

type_synonym requirements = "(string \<times> string option) list"

text \<open>
  The body of the loop of \<^verbatim>\<open>Environment.name\<close>: \<^verbatim>\<open>''.join([key, val])\<close> when the
  version is given, the bare key otherwise.
\<close>

fun name_entry :: "string \<times> string option \<Rightarrow> string" where
  "name_entry (key, Some val) = key @ val"
| "name_entry (key, None) = key"

text \<open>
  \<^verbatim>\<open>Environment.name\<close>, as a function of the two fields it reads. \<^verbatim>\<open>reqs.sort()\<close>
  sorts the list of \<open>(key, val)\<close> tuples; tuples compare lexicographically.
\<close>

definition env_name :: "string \<Rightarrow> requirements \<Rightarrow> string" where
  "env_name python reqs = join ''-'' ((''py'' @ python) # map name_entry (sort reqs))"

subsection \<open>Matrix expansion\<close>

type_synonym matrix = "(string \<times> string list) list"

text \<open>
  \<^verbatim>\<open>iter_matrix\<close>: the key removed is the first in iteration order; the generator's
  output is the list of the dictionaries it yields, in order.
\<close>

function iter_matrix :: "matrix \<Rightarrow> requirements list" where
  "iter_matrix [] = [[]]"
| "iter_matrix ((key, entry) # rest) =
     concat (map
       (\<lambda>result.
          if length entry \<noteq> 0
          then map (\<lambda>value. AList.update key (Some value) result) entry
          else [AList.update key None result])
       (iter_matrix (AList.delete key rest)))"
  by pat_completeness auto
termination
  by (relation "measure length") (auto simp: less_Suc_eq_le length_delete_le)

subsection \<open>The host system\<close>

text \<open>
  An argument of an external command. \<^verbatim>\<open>Environment.__init__\<close> stores what
  \<^verbatim>\<open>util.which\<close> returned, whole, and \<^verbatim>\<open>setup\<close> passes it on as the first argument.
\<close>

datatype arg = Arg string | Executables "string list"

text \<open>
  What the lifecycle observes and changes: the entries of the file system, each a
  regular file or a directory, named by its path as the program spells it; the
  entries that cannot be removed and the directories in which nothing can be created
  (\<open>locked\<close>: permissions, attributes, mount points); and the external commands run so
  far, oldest first. The working directory is the empty parent of a relative path and
  the root directory is always there. Symbolic links, the components \<^verbatim>\<open>.\<close> and \<^verbatim>\<open>..\<close>
  and repeated separators inside a path are not resolved.
\<close>

datatype node = File | Dir

record world =
  nodes :: "string \<rightharpoonup> node"
  locked :: "string set"
  calls :: "arg list list"

text \<open>
  The parts of the host that the code reaches through \<^verbatim>\<open>util\<close>, \<^verbatim>\<open>os\<close> and the
  import system, taken as parameters:
  \<^item> \<open>which\<close>: the executables found for a program name (\<^verbatim>\<open>util.which\<close>);
  \<^item> \<open>virtualenv_source\<close>: the source file of the \<^verbatim>\<open>virtualenv\<close> module, \<^const>\<open>None\<close>
    when importing it fails;
  \<^item> \<open>abspath\<close>: \<^verbatim>\<open>os.path.abspath\<close>, which depends on the working directory;
  \<^item> \<open>process\<close>: an external command run in a world: whether it exits with status
    zero, its output, and the entries and the locked paths that it leaves;
  \<^item> \<open>walk\<close>: the \<open>(root, dirs, files)\<close> triples of \<^verbatim>\<open>os.walk\<close>.
\<close>

record host =
  which :: "string \<Rightarrow> string list"
  virtualenv_source :: "string option"
  abspath :: "string \<Rightarrow> string"
  process :: "world \<Rightarrow> arg list \<Rightarrow> bool \<times> string \<times> (string \<rightharpoonup> node) \<times> string set"
  walk :: "string \<Rightarrow> (string \<times> string list \<times> string list) list"

text \<open>\<^verbatim>\<open>p.rstrip('/')\<close>, and \<^verbatim>\<open>posixpath.split\<close>: the head loses its trailing separators
  unless it consists of separators only.\<close>

definition rstrip_sep :: "string \<Rightarrow> string" where
  "rstrip_sep p = rev (dropWhile (\<lambda>c. c = CHR ''/'') (rev p))"

definition path_split :: "string \<Rightarrow> string \<times> string" where
  "path_split p =
     (let tail = rev (takeWhile (\<lambda>c. c \<noteq> CHR ''/'') (rev p));
          head = rev (dropWhile (\<lambda>c. c \<noteq> CHR ''/'') (rev p))
      in (if head \<noteq> [] \<and> rstrip_sep head \<noteq> [] then rstrip_sep head else head, tail))"

text \<open>
  The entry that a path names: the system ignores trailing separators, and a path of
  separators only is the root directory.
\<close>

definition strip_sep :: "string \<Rightarrow> string" where
  "strip_sep p = (if p \<noteq> [] \<and> rstrip_sep p = [] then ''/'' else rstrip_sep p)"

definition lookup :: "world \<Rightarrow> string \<Rightarrow> node option" where
  "lookup w p = (if strip_sep p = ''/'' then Some Dir else nodes w (strip_sep p))"

text \<open>
  \<^verbatim>\<open>os.path.exists\<close>: false on the empty path, and on a regular file named with a
  trailing separator.
\<close>

definition path_exists :: "world \<Rightarrow> string \<Rightarrow> bool" where
  "path_exists w p =
     (p \<noteq> [] \<and>
      (case lookup w p of None \<Rightarrow> False | Some Dir \<Rightarrow> True | Some File \<Rightarrow> strip_sep p = p))"

text \<open>
  \<^verbatim>\<open>os.mkdir\<close>: the exception raised, if any, and the world afterwards. The parent
  must be a directory in which entries can be created.
\<close>

definition mkdir :: "world \<Rightarrow> string \<Rightarrow> error option \<times> world" where
  "mkdir w name' =
     (let t = strip_sep name'; parent = fst (path_split t) in
      if name' = [] then (Some FileNotFoundError, w)
      else if lookup w t \<noteq> None then (Some FileExistsError, w)
      else if parent \<noteq> [] \<and> lookup w parent = None then (Some FileNotFoundError, w)
      else if parent \<noteq> [] \<and> lookup w parent = Some File then (Some NotADirectoryError, w)
      else if parent \<in> locked w then (Some OSError, w)
      else (None, w\<lparr>nodes := (nodes w)(t \<mapsto> Dir)\<rparr>))"

text \<open>
  The head and the tail that \<^verbatim>\<open>os.makedirs\<close> works with: the path is split, and split
  once more when the tail is empty.
\<close>

definition makedirs_split :: "string \<Rightarrow> string \<times> string" where
  "makedirs_split name' =
     (case path_split name' of
        (head, tail) \<Rightarrow> if tail = [] then path_split head else (head, tail))"

text \<open>
  \<^verbatim>\<open>os.makedirs\<close>: the missing parents are made first, a parent that is already there
  is not an error, and the directories made stay when a later one fails.
\<close>

function makedirs :: "world \<Rightarrow> string \<Rightarrow> error option \<times> world" where
  "makedirs w name' =
     (if fst (makedirs_split name') \<noteq> [] \<and> snd (makedirs_split name') \<noteq> []
         \<and> \<not> path_exists w (fst (makedirs_split name'))
      then
        (case makedirs w (fst (makedirs_split name')) of
           (Some err, w') \<Rightarrow>
             (if err \<noteq> FileExistsError then (Some err, w')
              else if snd (makedirs_split name') = ''.'' then (None, w')
              else mkdir w' name')
         | (None, w') \<Rightarrow>
             (if snd (makedirs_split name') = ''.'' then (None, w') else mkdir w' name'))
      else mkdir w name')"
  by pat_completeness auto
termination
proof (relation "measure (\<lambda>(w, n). length n)")
  show "wf (measure (\<lambda>(w :: world, n :: string). length n))" by simp
next
  fix w :: world and n :: string
  assume a: "fst (makedirs_split n) \<noteq> [] \<and> snd (makedirs_split n) \<noteq> []
               \<and> \<not> path_exists w (fst (makedirs_split n))"
  have split_length: "length (fst (path_split p)) + length (snd (path_split p)) \<le> length p"
    for p
  proof -
    have "length (takeWhile (\<lambda>c. c \<noteq> CHR ''/'') (rev p))
            + length (dropWhile (\<lambda>c. c \<noteq> CHR ''/'') (rev p)) = length p"
      by (metis length_append length_rev takeWhile_dropWhile_id)
    moreover have "length (rstrip_sep x) \<le> length x" for x
      using length_dropWhile_le [of "\<lambda>c. c = CHR ''/''" "rev x"]
      by (simp add: rstrip_sep_def)
    from this [of "rev (dropWhile (\<lambda>c. c \<noteq> CHR ''/'') (rev p))"]
    have "length (rstrip_sep (rev (dropWhile (\<lambda>c. c \<noteq> CHR ''/'') (rev p))))
            \<le> length (dropWhile (\<lambda>c. c \<noteq> CHR ''/'') (rev p))"
      by simp
    ultimately show ?thesis
      by (auto simp: path_split_def Let_def)
  qed
  obtain hd1 tl1 where s1: "path_split n = (hd1, tl1)" by (cases "path_split n")
  have l1: "length hd1 + length tl1 \<le> length n" using split_length [of n] s1 by simp
  have "length (fst (makedirs_split n)) < length n"
  proof (cases "tl1 = []")
    case True
    then have m: "makedirs_split n = path_split hd1" by (simp add: makedirs_split_def s1)
    with a obtain c cs where "snd (path_split hd1) = c # cs"
      by (cases "snd (path_split hd1)") auto
    with split_length [of hd1] l1 show ?thesis unfolding m by simp
  next
    case False
    then have "makedirs_split n = (hd1, tl1)" by (simp add: makedirs_split_def s1)
    moreover from False obtain c cs where "tl1 = c # cs" by (cases tl1) auto
    ultimately show ?thesis using l1 by simp
  qed
  then show "((w, fst (makedirs_split n)), w, n) \<in> measure (\<lambda>(w, n). length n)" by simp
qed

declare makedirs.simps [simp del]

text \<open>
  The paths at or under a directory, and \<^verbatim>\<open>shutil.rmtree\<close>: it raises on a missing
  path and on a regular file, and when an entry of the tree cannot be removed; which
  of the other entries are gone by then depends on the order of the directory
  listing, and the world is kept as it was. Otherwise the whole tree goes.
\<close>

definition in_tree :: "string \<Rightarrow> string \<Rightarrow> bool" where
  "in_tree t q = (q = t \<or> startswith q (if endswith t ''/'' then t else t @ ''/''))"

definition rmtree :: "world \<Rightarrow> string \<Rightarrow> error option \<times> world" where
  "rmtree w p =
     (case (if p = [] then None else lookup w p) of
        None \<Rightarrow> (Some FileNotFoundError, w)
      | Some File \<Rightarrow> (Some NotADirectoryError, w)
      | Some Dir \<Rightarrow>
          (if \<exists>q\<in>locked w. in_tree (strip_sep p) q \<and> nodes w q \<noteq> None
           then (Some OSError, w)
           else (None, w\<lparr>nodes := (\<lambda>q. if in_tree (strip_sep p) q then None else nodes w q)\<rparr>)))"

text \<open>
  Modelled from the spec: \<^verbatim>\<open>util.check_call\<close> and \<^verbatim>\<open>util.check_output\<close> are not in
  the sources. The provisioner's \<open>create\<close> succeeds or fails; a tool run returns its
  output and exit status; a failure is an error, except where the caller asks to
  tolerate it (\<^verbatim>\<open>error=False\<close>, used by \<^verbatim>\<open>uninstall\<close>). Every call is recorded.
\<close>

definition check_call :: "host \<Rightarrow> arg list \<Rightarrow> world \<Rightarrow> error option \<times> world" where
  "check_call h args w =
     (case process h w args of
        (ok, out, ns, ls) \<Rightarrow>
          (if ok then None else Some ProcessError,
           \<lparr>nodes = ns, locked = ls, calls = calls w @ [args]\<rparr>))"

definition check_output :: "host \<Rightarrow> arg list \<Rightarrow> bool \<Rightarrow> world \<Rightarrow> (error + string) \<times> world" where
  "check_output h args err w =
     (case process h w args of
        (ok, out, ns, ls) \<Rightarrow>
          (if ok \<or> \<not> err then Inr out else Inl ProcessError,
           \<lparr>nodes = ns, locked = ls, calls = calls w @ [args]\<rparr>))"

subsection \<open>Environments\<close>

record environment =
  executable :: "string list"
  env_dir :: string
  python :: string
  requirements :: requirements
  path :: string
  virtualenv_path :: string
  is_setup :: bool
  requirements_installed :: bool

definition name :: "environment \<Rightarrow> string" where
  "name e = env_name (python e) (requirements e)"

text \<open>\<^verbatim>\<open>Environment.__init__\<close>: it looks the interpreter up and imports virtualenv.\<close>

definition Environment_init ::
  "host \<Rightarrow> string \<Rightarrow> string \<Rightarrow> requirements \<Rightarrow> error + environment" where
  "Environment_init h env_dir' python' requirements' =
     (let executables = which h (''python'' @ python') in
      if length executables = 0
      then Inl (RuntimeError (''No executable found for version '' @ python'))
      else
        (case virtualenv_source h of
           None \<Rightarrow> Inl (RuntimeError ''virtualenv must be installed to run asv'')
         | Some src \<Rightarrow>
             Inr \<lparr>executable = executables,
                  env_dir = env_dir',
                  python = python',
                  requirements = requirements',
                  path = path_join env_dir' (env_name python' requirements'),
                  virtualenv_path = abspath h src,
                  is_setup = False,
                  requirements_installed = False\<rparr>))"

text \<open>The command of the external create step.\<close>

definition create_command :: "environment \<Rightarrow> arg list" where
  "create_command e =
     [Executables (executable e), Arg (virtualenv_path e), Arg ''--no-site-packages'',
      Arg (path e)]"

text \<open>
  The first statement of \<^verbatim>\<open>Environment.setup\<close> after the flag is read: the root
  directory of the environments is made when it does not exist.
\<close>

definition ensure_env_dir :: "environment \<Rightarrow> world \<Rightarrow> error option \<times> world" where
  "ensure_env_dir e w =
     (if \<not> path_exists w (env_dir e) then makedirs w (env_dir e) else (None, w))"

text \<open>
  \<^verbatim>\<open>Environment.setup\<close> (\<open>setup\<close> is a keyword of Isabelle). The result is the
  exception raised, if any, the object and the world as the call leaves them. An
  exception of \<^verbatim>\<open>os.makedirs\<close> is raised before the \<^verbatim>\<open>try\<close> block; one of
  \<^verbatim>\<open>shutil.rmtree\<close> in the handler takes the place of the one being handled.
\<close>

definition setup_env :: "host \<Rightarrow> environment \<Rightarrow> world \<Rightarrow> error option \<times> environment \<times> world" where
  "setup_env h e w =
     (if is_setup e then (None, e, w)
      else
        (case ensure_env_dir e w of
           (Some err, w1) \<Rightarrow> (Some err, e, w1)
         | (None, w1) \<Rightarrow>
             (case (if \<not> path_exists w1 (path e) then check_call h (create_command e) w1
                    else (None, w1)) of
                (Some err, w2) \<Rightarrow>
                  (if path_exists w2 (path e)
                   then (case rmtree w2 (path e) of
                           (Some err', w3) \<Rightarrow> (Some err', e, w3)
                         | (None, w3) \<Rightarrow> (Some err, e, w3))
                   else (Some err, e, w2))
              | (None, w2) \<Rightarrow> (None, e\<lparr>is_setup := True\<rparr>, w2))))"

definition run_executable ::
  "host \<Rightarrow> environment \<Rightarrow> string \<Rightarrow> string list \<Rightarrow> bool \<Rightarrow> world \<Rightarrow> (error + string) \<times> world" where
  "run_executable h e exe args err w =
     check_output h (Arg (path_join (path_join (path e) ''bin'') exe) # map Arg args) err w"

definition install ::
  "host \<Rightarrow> environment \<Rightarrow> string \<Rightarrow> bool \<Rightarrow> world \<Rightarrow> error option \<times> world" where
  "install h e package editable w =
     (case run_executable h e ''pip''
             ([''install''] @ (if editable then [''-e''] else []) @ [package]) True w of
        (Inl err, w') \<Rightarrow> (Some err, w')
      | (Inr out, w') \<Rightarrow> (None, w'))"

definition upgrade :: "host \<Rightarrow> environment \<Rightarrow> string \<Rightarrow> world \<Rightarrow> error option \<times> world" where
  "upgrade h e package w =
     (case run_executable h e ''pip'' [''install'', ''--upgrade'', package] True w of
        (Inl err, w') \<Rightarrow> (Some err, w')
      | (Inr out, w') \<Rightarrow> (None, w'))"

definition uninstall :: "host \<Rightarrow> environment \<Rightarrow> string \<Rightarrow> world \<Rightarrow> error option \<times> world" where
  "uninstall h e package w =
     (case run_executable h e ''pip'' [''uninstall'', ''-y'', package] False w of
        (Inl err, w') \<Rightarrow> (Some err, w')
      | (Inr out, w') \<Rightarrow> (None, w'))"

text \<open>The loop of \<^verbatim>\<open>install_requirements\<close> over the requirement mapping.\<close>

fun upgrade_requirements ::
  "host \<Rightarrow> environment \<Rightarrow> requirements \<Rightarrow> world \<Rightarrow> error option \<times> world" where
  "upgrade_requirements h e [] w = (None, w)"
| "upgrade_requirements h e ((key, val) # reqs) w =
     (case upgrade h e (case val of Some v \<Rightarrow> key @ ''=='' @ v | None \<Rightarrow> key) w of
        (Some err, w') \<Rightarrow> (Some err, w')
      | (None, w') \<Rightarrow> upgrade_requirements h e reqs w')"

definition install_requirements ::
  "host \<Rightarrow> environment \<Rightarrow> world \<Rightarrow> error option \<times> environment \<times> world" where
  "install_requirements h e w =
     (if requirements_installed e then (None, e, w)
      else
        (case setup_env h e w of
           (Some err, e1, w1) \<Rightarrow> (Some err, e1, w1)
         | (None, e1, w1) \<Rightarrow>
             (case upgrade h e1 ''setuptools'' w1 of
                (Some err, w2) \<Rightarrow> (Some err, e1, w2)
              | (None, w2) \<Rightarrow>
                  (case upgrade_requirements h e1 (requirements e1) w2 of
                     (Some err, w3) \<Rightarrow> (Some err, e1, w3)
                   | (None, w3) \<Rightarrow> (None, e1\<lparr>requirements_installed := True\<rparr>, w3)))))"

record conf =
  conf_env_dir :: string
  conf_pythons :: "string list"
  conf_matrix :: matrix
  conf_project :: string

definition install_project ::
  "host \<Rightarrow> environment \<Rightarrow> conf \<Rightarrow> world \<Rightarrow> error option \<times> environment \<times> world" where
  "install_project h e c w =
     (case install_requirements h e w of
        (Some err, e1, w1) \<Rightarrow> (Some err, e1, w1)
      | (None, e1, w1) \<Rightarrow>
          (case uninstall h e1 (conf_project c) w1 of
             (Some err, w2) \<Rightarrow> (Some err, e1, w2)
           | (None, w2) \<Rightarrow>
               (case install h e1 (abspath h (conf_project c)) True w2 of
                  (err, w3) \<Rightarrow> (err, e1, w3))))"

text \<open>
  A generator that constructs objects: the list of what it yields, or the first
  exception raised on the way.
\<close>

fun collect :: "(error + 'a) list \<Rightarrow> error + 'a list" where
  "collect [] = Inr []"
| "collect (Inl e # xs) = Inl e"
| "collect (Inr x # xs) = (case collect xs of Inl e \<Rightarrow> Inl e | Inr ys \<Rightarrow> Inr (x # ys))"

definition get_environments :: "host \<Rightarrow> conf \<Rightarrow> error + environment list" where
  "get_environments h c =
     collect (concat (map
       (\<lambda>python'. map
          (\<lambda>configuration. Environment_init h (conf_env_dir c) python' configuration)
          (iter_matrix (conf_matrix c)))
       (conf_pythons c)))"

text \<open>
  The \<open>(python, configuration)\<close> pairs of the two nested loops of
  \<^verbatim>\<open>get_environments\<close>, in order, before an environment is constructed from each.
\<close>

definition configurations :: "conf \<Rightarrow> (string \<times> requirements) list" where
  "configurations c =
     concat (map (\<lambda>python'. map (\<lambda>configuration. (python', configuration)) (iter_matrix (conf_matrix c)))
       (conf_pythons c))"

subsection \<open>Result records\<close>

type_synonym bytes = "char list"

text \<open>
  \<^verbatim>\<open>zlib.compress\<close>, \<^verbatim>\<open>zlib.decompress\<close>, \<^verbatim>\<open>base64.b64encode\<close> and
  \<^verbatim>\<open>base64.b64decode\<close> belong to Python's library; they are parameters. Decoding
  input that is not well formed raises: \<^const>\<open>None\<close>.
\<close>

record codec =
  compress :: "bytes \<Rightarrow> bytes"
  decompress :: "bytes \<Rightarrow> bytes option"
  b64encode :: "bytes \<Rightarrow> string"
  b64decode :: "string \<Rightarrow> bytes option"

text \<open>What the library documents: decoding inverts encoding.\<close>

definition codec_inverse :: "codec \<Rightarrow> bool" where
  "codec_inverse c =
     ((\<forall>x. decompress c (compress c x) = Some x) \<and> (\<forall>y. b64decode c (b64encode c y) = Some y))"

record results =
  r_params :: "string \<rightharpoonup> string"
  r_env :: environment
  r_commit_hash :: string
  r_date :: int
  r_results :: "string \<rightharpoonup> real"
  r_profiles :: "string \<rightharpoonup> string"
  r_python :: string
  r_filename :: string

definition api_version :: nat where
  "api_version = 1"

text \<open>\<^verbatim>\<open>Results.__init__\<close>; \<^verbatim>\<open>params['machine']\<close> raises when the key is missing.\<close>

definition Results_init ::
  "(string \<rightharpoonup> string) \<Rightarrow> environment \<Rightarrow> string \<Rightarrow> int \<Rightarrow> error + results" where
  "Results_init params env commit_hash date =
     (case params ''machine'' of
        None \<Rightarrow> Inl (KeyError ''machine'')
      | Some machine \<Rightarrow>
          Inr \<lparr>r_params = params,
               r_env = env,
               r_commit_hash = commit_hash,
               r_date = date,
               r_results = Map.empty,
               r_profiles = Map.empty,
               r_python = python env,
               r_filename = path_join machine (take 8 commit_hash @ ''-'' @ name env @ ''.json'')\<rparr>)"

definition add_time :: "results \<Rightarrow> string \<Rightarrow> real \<Rightarrow> results" where
  "add_time r benchmark_name time = r\<lparr>r_results := (r_results r)(benchmark_name \<mapsto> time)\<rparr>"

definition add_profile :: "codec \<Rightarrow> results \<Rightarrow> string \<Rightarrow> bytes \<Rightarrow> results" where
  "add_profile c r benchmark_name profile =
     r\<lparr>r_profiles := (r_profiles r)(benchmark_name \<mapsto> b64encode c (compress c profile))\<rparr>"

definition get_profile :: "codec \<Rightarrow> results \<Rightarrow> string \<Rightarrow> error + bytes" where
  "get_profile c r benchmark_name =
     (case r_profiles r benchmark_name of
        None \<Rightarrow> Inl (KeyError benchmark_name)
      | Some s \<Rightarrow>
          (case b64decode c s of
             None \<Rightarrow> Inl CodecError
           | Some z \<Rightarrow> (case decompress c z of None \<Rightarrow> Inl CodecError | Some x \<Rightarrow> Inr x)))"

definition has_profile :: "results \<Rightarrow> string \<Rightarrow> bool" where
  "has_profile r benchmark_name = (benchmark_name \<in> dom (r_profiles r))"

subsection \<open>The results store\<close>

text \<open>
  The persisted document. \<^verbatim>\<open>load\<close> asks whether the key \<^verbatim>\<open>'profiles'\<close> is there, so
  that field is optional; the others are read unconditionally.
\<close>

record document =
  d_results :: "string \<rightharpoonup> real"
  d_params :: "string \<rightharpoonup> string"
  d_requirements :: requirements
  d_commit_hash :: string
  d_date :: int
  d_python :: string
  d_profiles :: "(string \<rightharpoonup> string) option"

text \<open>The files of the results tree: a path holds a document and its stored version.\<close>

type_synonym store = "string \<rightharpoonup> nat \<times> document"

text \<open>
  Modelled from the spec: \<^verbatim>\<open>util.write_json\<close> and \<^verbatim>\<open>util.load_json\<close> are not in the
  sources. Writing stamps the document with the version given and puts it at the
  path. Reading fails when there is no file; a stored version older than the current
  one goes through the migration hook, which may fail; a stored version newer than the
  current one is a schema error.
\<close>

definition write_json :: "string \<Rightarrow> document \<Rightarrow> nat \<Rightarrow> store \<Rightarrow> store" where
  "write_json p d v st = st(p \<mapsto> (v, d))"

definition load_json ::
  "(nat \<Rightarrow> document \<Rightarrow> document option) \<Rightarrow> store \<Rightarrow> string \<Rightarrow> nat \<Rightarrow> error + document" where
  "load_json migrate st p v =
     (case st p of
        None \<Rightarrow> Inl NotFoundError
      | Some (v', d) \<Rightarrow>
          (if v' = v then Inr d
           else if v' < v
           then (case migrate v' d of None \<Rightarrow> Inl SchemaError | Some d' \<Rightarrow> Inr d')
           else Inl SchemaError))"

text \<open>\<^verbatim>\<open>Results.save\<close>: the store after the write.\<close>

definition save :: "results \<Rightarrow> string \<Rightarrow> store \<Rightarrow> store" where
  "save r result_dir st =
     write_json (path_join result_dir (r_filename r))
       \<lparr>d_results = r_results r,
        d_params = r_params r,
        d_requirements = requirements (r_env r),
        d_commit_hash = r_commit_hash r,
        d_date = r_date r,
        d_python = r_python r,
        d_profiles = Some (r_profiles r)\<rparr>
       api_version st"

text \<open>\<^verbatim>\<open>os.path.join(*parts)\<close> for the one or two parts that \<^verbatim>\<open>load\<close> passes.\<close>

fun path_join_list :: "string list \<Rightarrow> string" where
  "path_join_list [] = []"
| "path_join_list (a # ps) = foldl path_join a ps"

text \<open>
  \<^verbatim>\<open>Results.load\<close>. The arguments of the constructor are evaluated left to right, the
  environment before the constructor runs.
\<close>

definition load ::
  "host \<Rightarrow> (nat \<Rightarrow> document \<Rightarrow> document option) \<Rightarrow> store \<Rightarrow> string \<Rightarrow> error + results" where
  "load h migrate st p =
     (case load_json migrate st p api_version of
        Inl err \<Rightarrow> Inl err
      | Inr d \<Rightarrow>
          (case Environment_init h [] (d_python d) (d_requirements d) of
             Inl err \<Rightarrow> Inl err
           | Inr env \<Rightarrow>
               (case Results_init (d_params d) env (d_commit_hash d) (d_date d) of
                  Inl err \<Rightarrow> Inl err
                | Inr obj \<Rightarrow>
                    (let parts = split CHR ''/'' p in
                     Inr (obj\<lparr>r_results := d_results d,
                              r_profiles :=
                                (case d_profiles d of Some ps \<Rightarrow> ps | None \<Rightarrow> r_profiles obj),
                              r_filename :=
                                path_join_list (drop (length parts - 2) parts)\<rparr>)))))"

subsection \<open>The results index\<close>

definition skip_files :: "string list" where
  "skip_files = [''machine.json'', ''benchmarks.json'']"

text \<open>The paths that \<^verbatim>\<open>iter_results\<close> loads, in the order of the walk.\<close>

definition result_paths :: "host \<Rightarrow> string \<Rightarrow> string list" where
  "result_paths h results_dir =
     concat (map
       (\<lambda>(root, dirs, files).
          map (path_join root)
            (filter (\<lambda>filename. filename \<notin> set skip_files \<and> endswith filename ''.json'') files))
       (walk h results_dir))"

definition iter_results ::
  "host \<Rightarrow> (nat \<Rightarrow> document \<Rightarrow> document option) \<Rightarrow> store \<Rightarrow> string \<Rightarrow> error + results list" where
  "iter_results h migrate st results_dir =
     collect (map (load h migrate st) (result_paths h results_dir))"

definition iter_existing_hashes ::
  "host \<Rightarrow> (nat \<Rightarrow> document \<Rightarrow> document option) \<Rightarrow> store \<Rightarrow> string
     \<Rightarrow> error + (string \<times> int) list" where
  "iter_existing_hashes h migrate st results_dir =
     (case iter_results h migrate st results_dir of
        Inl err \<Rightarrow> Inl err
      | Inr rs \<Rightarrow> Inr (map (\<lambda>result. (r_commit_hash result, r_date result)) rs))"

text \<open>
  One turn of the loop of \<^verbatim>\<open>find_latest_result_hash\<close> on its two variables, and the
  loop from their initial values \<^verbatim>\<open>0\<close> and \<^verbatim>\<open>''\<close>.
\<close>

fun latest_step :: "int \<times> string \<Rightarrow> string \<times> int \<Rightarrow> int \<times> string" where
  "latest_step (latest_date, latest_hash) (commit_hash, date) =
     (if date > latest_date then (date, commit_hash) else (latest_date, latest_hash))"

definition latest_loop :: "(string \<times> int) list \<Rightarrow> int \<times> string" where
  "latest_loop pairs = foldl latest_step (0, []) pairs"

definition find_latest_result_hash ::
  "host \<Rightarrow> (nat \<Rightarrow> document \<Rightarrow> document option) \<Rightarrow> store \<Rightarrow> string \<Rightarrow> string
     \<Rightarrow> error + string" where
  "find_latest_result_hash h migrate st machine root' =
     (case iter_existing_hashes h migrate st (path_join root' machine) of
        Inl err \<Rightarrow> Inl err
      | Inr pairs \<Rightarrow> Inr (snd (latest_loop pairs)))"

subsection \<open>Concrete instances\<close>

text \<open>A host with three interpreters, where every external command succeeds.\<close>

fun demo_process ::
  "world \<Rightarrow> arg list \<Rightarrow> bool \<times> string \<times> (string \<rightharpoonup> node) \<times> string set" where
  "demo_process w [Executables xs, Arg v, Arg opt, Arg p] =
     (True, [], (nodes w)(p \<mapsto> Dir), locked w)"
| "demo_process w args = (True, [], nodes w, locked w)"

definition demo_host :: host where
  "demo_host =
     \<lparr>which = (\<lambda>prog. if prog \<in> set [''python2.7'', ''python3.4'', ''python3.6'']
                      then [''/usr/bin/'' @ prog] else []),
      virtualenv_source = Some ''/usr/lib/python/virtualenv.py'',
      abspath = (\<lambda>p. path_join ''/home/asv'' p),
      process = demo_process,
      walk = (\<lambda>top. [])\<rparr>"

definition demo_conf :: conf where
  "demo_conf =
     \<lparr>conf_env_dir = ''env'',
      conf_pythons = [''2.7'', ''3.4''],
      conf_matrix = [(''numpy'', [''1.7'', ''1.8'']), (''cython'', [])],
      conf_project = ''project''\<rparr>"

definition demo_env :: environment where
  "demo_env =
     \<lparr>executable = [''/usr/bin/python3.6''],
      env_dir = ''env'',
      python = ''3.6'',
      requirements = [(''requests'', Some ''2.9'')],
      path = ''env/py3.6-requests2.9'',
      virtualenv_path = ''/usr/lib/python/virtualenv.py'',
      is_setup = False,
      requirements_installed = False\<rparr>"

text \<open>
  A codec that satisfies \<^const>\<open>codec_inverse\<close>: compression puts a marker in front,
  the encoding puts one behind, and decoding rejects what does not carry them.
\<close>

definition demo_codec :: codec where
  "demo_codec =
     \<lparr>compress = (\<lambda>x. CHR ''x'' # x),
      decompress = (\<lambda>z. case z of [] \<Rightarrow> None | c # x \<Rightarrow> if c = CHR ''x'' then Some x else None),
      b64encode = (\<lambda>y. y @ ''=''),
      b64decode = (\<lambda>s. if s \<noteq> [] \<and> last s = CHR ''='' then Some (butlast s) else None)\<rparr>"

text \<open>A record for machine \<open>bench1\<close>, as the constructor builds it.\<close>

definition demo_params :: "string \<rightharpoonup> string" where
  "demo_params = [''machine'' \<mapsto> ''bench1'']"

definition demo_results :: results where
  "demo_results =
     \<lparr>r_params = demo_params,
      r_env = demo_env,
      r_commit_hash = ''abcdef1234567890'',
      r_date = 1384000000000,
      r_results = Map.empty,
      r_profiles = Map.empty,
      r_python = ''3.6'',
      r_filename = ''bench1/abcdef12-py3.6-requests2.9.json''\<rparr>"

text \<open>
  A persisted document, the store that holds it, and a migration hook that knows no
  older version.
\<close>

definition demo_document :: document where
  "demo_document =
     \<lparr>d_results = [''time_sort'' \<mapsto> 0.5],
      d_params = demo_params,
      d_requirements = [(''requests'', Some ''2.9'')],
      d_commit_hash = ''abcdef1234567890'',
      d_date = 1384000000000,
      d_python = ''3.6'',
      d_profiles = Some Map.empty\<rparr>"

definition demo_path :: string where
  "demo_path = ''results/bench1/abcdef12-py3.6-requests2.9.json''"

definition demo_store :: store where
  "demo_store = [demo_path \<mapsto> (api_version, demo_document)]"

definition demo_migrate :: "nat \<Rightarrow> document \<Rightarrow> document option" where
  "demo_migrate v d = None"

text \<open>
  A provisioner that creates the environment's directory and a directory inside it,
  and then fails; and one that, before it fails, makes the inner directory one that
  cannot be removed.
\<close>

fun failing_process ::
  "world \<Rightarrow> arg list \<Rightarrow> bool \<times> string \<times> (string \<rightharpoonup> node) \<times> string set" where
  "failing_process w [Executables xs, Arg v, Arg opt, Arg p] =
     (False, [], (nodes w)(p \<mapsto> Dir, p @ ''/bin'' \<mapsto> Dir), locked w)"
| "failing_process w args = (True, [], nodes w, locked w)"

fun locking_process ::
  "world \<Rightarrow> arg list \<Rightarrow> bool \<times> string \<times> (string \<rightharpoonup> node) \<times> string set" where
  "locking_process w [Executables xs, Arg v, Arg opt, Arg p] =
     (False, [], (nodes w)(p \<mapsto> Dir, p @ ''/bin'' \<mapsto> Dir), insert (p @ ''/bin'') (locked w))"
| "locking_process w args = (True, [], nodes w, locked w)"

definition demo_world :: world where
  "demo_world = \<lparr>nodes = Map.empty, locked = {}, calls = []\<rparr>"

text \<open>The worlds that the lifecycle goes through on the demo host, and its pip commands.\<close>

definition demo_pip :: "string list \<Rightarrow> arg list" where
  "demo_pip args = Arg ''env/py3.6-requests2.9/bin/pip'' # map Arg args"

definition demo_world_setup :: world where
  "demo_world_setup =
     \<lparr>nodes = [''env'' \<mapsto> Dir, ''env/py3.6-requests2.9'' \<mapsto> Dir],
      locked = {},
      calls = [create_command demo_env]\<rparr>"

definition demo_world_requirements :: world where
  "demo_world_requirements =
     demo_world_setup\<lparr>calls := calls demo_world_setup @
        [demo_pip [''install'', ''--upgrade'', ''setuptools''],
         demo_pip [''install'', ''--upgrade'', ''requests==2.9'']]\<rparr>"

definition demo_world_project :: world where
  "demo_world_project =
     demo_world_requirements\<lparr>calls := calls demo_world_requirements @
        [demo_pip [''uninstall'', ''-y'', ''project''],
         demo_pip [''install'', ''-e'', ''/home/asv/project'']]\<rparr>"

text \<open>
  A results tree with three records for machine \<open>bench1\<close>, beside a metadata file and
  a file that is not JSON; the dates of the three records are parameters.
\<close>

definition index_host :: host where
  "index_host =
     demo_host\<lparr>walk := (\<lambda>top.
        if top = ''results/bench1''
        then [(''results/bench1'', [], [''machine.json'', ''h1.json'', ''notes.txt'', ''h2.json'', ''h3.json''])]
        else [])\<rparr>"

definition index_store :: "int \<Rightarrow> int \<Rightarrow> int \<Rightarrow> store" where
  "index_store d1 d2 d3 =
     [''results/bench1/h1.json'' \<mapsto> (api_version, demo_document\<lparr>d_commit_hash := ''h1'', d_date := d1\<rparr>),
      ''results/bench1/h2.json'' \<mapsto> (api_version, demo_document\<lparr>d_commit_hash := ''h2'', d_date := d2\<rparr>),
      ''results/bench1/h3.json'' \<mapsto> (api_version, demo_document\<lparr>d_commit_hash := ''h3'', d_date := d3\<rparr>)]"

section \<open>Properties\<close>

subsection \<open>Matrix expansion\<close>

lemma length_concat_const:
  "(\<And>x. x \<in> set xs \<Longrightarrow> length (f x) = n) \<Longrightarrow> length (concat (map f xs)) = length xs * n"
  by (induction xs) auto

lemma length_iter_matrix:
  "distinct (map fst m) \<Longrightarrow>
   length (iter_matrix m) = prod_list (map (\<lambda>(k, vs). max 1 (length vs)) m)"
proof (induction m rule: iter_matrix.induct)
  case 1
  then show ?case by simp
next
  case (2 key entry rest)
  from "2.prems" have nk: "key \<notin> fst ` set rest" and d: "distinct (map fst rest)" by auto
  have del: "AList.delete key rest = rest" using nk by simp
  have ih: "length (iter_matrix rest) = prod_list (map (\<lambda>(k, vs). max 1 (length vs)) rest)"
    using "2.IH" d del by simp
  have "length (iter_matrix ((key, entry) # rest)) = length (iter_matrix rest) * max 1 (length entry)"
    unfolding iter_matrix.simps del
    by (rule length_concat_const) (cases entry; simp)
  then show ?case using ih by (simp add: mult.commute)
qed

lemma iter_matrix_empty_entry:
  "map_of m k = Some [] \<Longrightarrow> cfg \<in> set (iter_matrix m) \<Longrightarrow> map_of cfg k = Some None"
proof (induction m arbitrary: cfg rule: iter_matrix.induct)
  case 1
  then show ?case by simp
next
  case (2 key entry rest)
  obtain result where
    res: "result \<in> set (iter_matrix (AList.delete key rest))" and
    cfg: "cfg \<in> set (if length entry \<noteq> 0
          then map (\<lambda>value. AList.update key (Some value) result) entry
          else [AList.update key None result])"
    using "2.prems"(2) unfolding iter_matrix.simps set_concat set_map by blast
  show ?case
  proof (cases "k = key")
    case True
    with "2.prems"(1) have "entry = []" by simp
    with cfg True show ?thesis by (simp add: update_conv')
  next
    case False
    with "2.prems"(1) have "map_of (AList.delete key rest) k = Some []" by simp
    then have "map_of result k = Some None" using "2.IH" res by blast
    with cfg False show ?thesis by (auto simp: update_conv' split: if_splits)
  qed
qed

lemma collect_all_Inr:
  "\<forall>x\<in>set xs. \<exists>y. f x = Inr y \<and> g y = x \<Longrightarrow> \<exists>ys. collect (map f xs) = Inr ys \<and> map g ys = xs"
proof (induction xs)
  case Nil
  then show ?case by simp
next
  case (Cons a xs)
  then obtain y ys where "f a = Inr y" "g y = a" "collect (map f xs) = Inr ys" "map g ys = xs"
    by auto
  then show ?case by simp
qed

lemma get_environments_configurations:
  "get_environments h c =
     collect (map (\<lambda>(p, cfg). Environment_init h (conf_env_dir c) p cfg) (configurations c))"
  by (simp add: get_environments_def configurations_def map_concat comp_def)

text \<open>
  Claim C1. For a matrix with distinct keys, the configurations that matrix expansion
  produces number the interpreters times the product, over the keys of the matrix, of
  \<open>max 1\<close> of the length of the key's version list; in every configuration a key
  with an empty version list carries \<^verbatim>\<open>None\<close>, the unconstrained sentinel. On a host
  that has every interpreter listed and virtualenv, \<^verbatim>\<open>get_environments\<close> yields one
  environment for each of these configurations, in order.
\<close>

theorem matrix_expansion_count:
  assumes "distinct (map fst (conf_matrix c))"
  shows "length (configurations c) =
           length (conf_pythons c) * prod_list (map (\<lambda>(k, vs). max 1 (length vs)) (conf_matrix c))
         \<and> (\<forall>k p cfg. map_of (conf_matrix c) k = Some [] \<and> (p, cfg) \<in> set (configurations c)
              \<longrightarrow> map_of cfg k = Some None)
         \<and> ((\<forall>p\<in>set (conf_pythons c). which h (''python'' @ p) \<noteq> []) \<and> virtualenv_source h \<noteq> None
              \<longrightarrow> (\<exists>envs. get_environments h c = Inr envs
                     \<and> map (\<lambda>e. (python e, requirements e)) envs = configurations c
                     \<and> length envs =
                         length (conf_pythons c)
                           * prod_list (map (\<lambda>(k, vs). max 1 (length vs)) (conf_matrix c))))"
proof -
  have len: "length (configurations c) =
           length (conf_pythons c) * prod_list (map (\<lambda>(k, vs). max 1 (length vs)) (conf_matrix c))"
    unfolding configurations_def
    by (rule length_concat_const) (simp add: length_iter_matrix [OF assms])
  have sentinel: "map_of cfg k = Some None"
    if "map_of (conf_matrix c) k = Some [] \<and> (p, cfg) \<in> set (configurations c)" for k p cfg
    using that by (auto simp: configurations_def intro: iter_matrix_empty_entry)
  have envs: "\<exists>envs. get_environments h c = Inr envs
            \<and> map (\<lambda>e. (python e, requirements e)) envs = configurations c
            \<and> length envs =
                length (conf_pythons c)
                  * prod_list (map (\<lambda>(k, vs). max 1 (length vs)) (conf_matrix c))"
    if ok: "(\<forall>p\<in>set (conf_pythons c). which h (''python'' @ p) \<noteq> [])
            \<and> virtualenv_source h \<noteq> None"
  proof -
    have "\<forall>x\<in>set (configurations c).
            \<exists>y. (\<lambda>(p, cfg). Environment_init h (conf_env_dir c) p cfg) x = Inr y
              \<and> (\<lambda>e. (python e, requirements e)) y = x"
      using ok by (auto simp: configurations_def Environment_init_def)
    then have "\<exists>envs. get_environments h c = Inr envs
                 \<and> map (\<lambda>e. (python e, requirements e)) envs = configurations c"
      unfolding get_environments_configurations by (rule collect_all_Inr)
    then obtain envs where e: "get_environments h c = Inr envs"
      and m: "map (\<lambda>e. (python e, requirements e)) envs = configurations c"
      by (elim exE conjE)
    from m have "length envs = length (configurations c)" by (metis length_map)
    with e m len show ?thesis by simp
  qed
  show ?thesis
  proof (intro conjI allI impI)
    show "length (configurations c) =
           length (conf_pythons c) * prod_list (map (\<lambda>(k, vs). max 1 (length vs)) (conf_matrix c))"
      by (rule len)
  next
    fix k p cfg
    assume "map_of (conf_matrix c) k = Some [] \<and> (p, cfg) \<in> set (configurations c)"
    then show "map_of cfg k = Some None" by (rule sentinel)
  next
    assume "(\<forall>p\<in>set (conf_pythons c). which h (''python'' @ p) \<noteq> [])
            \<and> virtualenv_source h \<noteq> None"
    then show "\<exists>envs. get_environments h c = Inr envs
            \<and> map (\<lambda>e. (python e, requirements e)) envs = configurations c
            \<and> length envs =
                length (conf_pythons c)
                  * prod_list (map (\<lambda>(k, vs). max 1 (length vs)) (conf_matrix c))"
      by (rule envs)
  qed
qed

theorem matrix_expansion_count_witness:
  "distinct (map fst (conf_matrix demo_conf))
   \<and> length (configurations demo_conf) = 2 * (2 * 1)
   \<and> (\<exists>envs. get_environments demo_host demo_conf = Inr envs \<and> length envs = 2 * (2 * 1))"
proof -
  have d: "distinct (map fst (conf_matrix demo_conf))" by (simp add: demo_conf_def)
  have ok: "(\<forall>p\<in>set (conf_pythons demo_conf). which demo_host (''python'' @ p) \<noteq> [])
            \<and> virtualenv_source demo_host \<noteq> None"
    by (simp add: demo_conf_def demo_host_def)
  note t = matrix_expansion_count [OF d, of demo_host]
  from t have len: "length (configurations demo_conf) = 2 * (2 * 1)"
    by (simp add: demo_conf_def)
  from t ok obtain envs where e: "get_environments demo_host demo_conf = Inr envs"
    and l: "length envs = length (conf_pythons demo_conf)
              * prod_list (map (\<lambda>(k, vs). max 1 (length vs)) (conf_matrix demo_conf))"
    by blast
  from l have "length envs = 2 * (2 * 1)" by (simp add: demo_conf_def)
  with d len e show ?thesis by simp
qed

subsection \<open>Environment identity\<close>

lemma filter_eq_distinct:
  "distinct xs \<Longrightarrow> k \<in> set xs \<Longrightarrow> filter (\<lambda>x. x = k) xs = [k]"
proof (induction xs)
  case Nil
  then show ?case by simp
next
  case (Cons a xs)
  show ?case
  proof (cases "a = k")
    case True
    with Cons.prems have "filter (\<lambda>x. x = k) xs = []" by (auto simp: filter_empty_conv)
    with True show ?thesis by simp
  next
    case False
    with Cons show ?thesis by simp
  qed
qed

lemma sorted_map_fst:
  fixes xs :: requirements
  shows "sorted xs \<Longrightarrow> sorted (map fst xs)"
  by (induction xs) (auto simp: less_eq_prod_def)

lemma sort_pairs_by_key:
  fixes r :: requirements
  assumes "distinct (map fst r)"
  shows "sort_key fst r = sort r"
proof (rule properties_for_sort_key)
  show "mset (sort r) = mset r" by simp
  show "sorted (map fst (sort r))" by (rule sorted_map_fst) simp
  fix k assume k: "k \<in> set (sort r)"
  have inj: "inj_on fst (set r)" and dr: "distinct r" using assms by (auto simp: distinct_map)
  have eq: "x \<in> set r \<Longrightarrow> (fst k = fst x) = (x = k)" for x
    using inj k by (auto dest: inj_onD)
  have "filter (\<lambda>x. fst k = fst x) xs = filter (\<lambda>x. x = k) xs" if "set xs \<subseteq> set r" for xs
    using that eq by (intro filter_cong) auto
  then have "filter (\<lambda>x. fst k = fst x) (sort r) = filter (\<lambda>x. x = k) (sort r)"
    and "filter (\<lambda>x. fst k = fst x) r = filter (\<lambda>x. x = k) r" by auto
  moreover have "filter (\<lambda>x. x = k) (sort r) = [k]" 
    using k dr by (intro filter_eq_distinct) auto
  moreover have "filter (\<lambda>x. x = k) r = [k]" 
    using k dr by (intro filter_eq_distinct) auto
  ultimately show "filter (\<lambda>x. fst k = fst x) (sort r) = filter (\<lambda>x. fst k = fst x) r"
    by simp
qed

lemma sort_pairs_eq:
  fixes r1 r2 :: requirements
  assumes "distinct (map fst r1)" "distinct (map fst r2)" "set r1 = set r2"
  shows "sort r1 = sort r2"
proof -
  have "distinct r1" "distinct r2" using assms(1,2) by (auto simp: distinct_map) 
  then have "mset r1 = mset r2" using assms(3) by (simp add: set_eq_iff_mset_eq_distinct)
  then show ?thesis by (metis properties_for_sort sorted_sort mset_sort)
qed

text \<open>
  Claim C4. The name of an environment is a function of its interpreter version and
  its requirement mapping, rendered in the order of the package names: two requirement
  mappings with the same entries, inserted in any order, give the same name.
\<close>

theorem name_insertion_order:
  assumes "distinct (map fst r1)" and "distinct (map fst r2)" and "set r1 = set r2"
  shows "name (e\<lparr>requirements := r1\<rparr>) = name (e\<lparr>requirements := r2\<rparr>)
         \<and> name (e\<lparr>requirements := r1\<rparr>) =
             join ''-'' ((''py'' @ python e) # map name_entry (sort_key fst r1))"
  using sort_pairs_eq [OF assms] sort_pairs_by_key [OF assms(1)]
  by (simp add: name_def env_name_def)

lemma demo_env_init:
  "Environment_init demo_host ''env'' ''3.6'' [(''requests'', Some ''2.9'')] = Inr demo_env"
  by (simp add: Environment_init_def demo_host_def demo_env_def env_name_def path_join_def startswith_def endswith_def)

theorem name_insertion_order_witness:
  "distinct (map fst [(''A'', Some ''1''), (''B'', Some ''2'')])
   \<and> distinct (map fst [(''B'', Some ''2''), (''A'', Some ''1'')])
   \<and> set [(''A'', Some ''1''), (''B'', Some ''2'')] = set [(''B'', Some ''2''), (''A'', Some ''1'')]
   \<and> name (demo_env\<lparr>python := ''3.9'', requirements := [(''A'', Some ''1''), (''B'', Some ''2'')]\<rparr>)
       = name (demo_env\<lparr>python := ''3.9'', requirements := [(''B'', Some ''2''), (''A'', Some ''1'')]\<rparr>)"
proof -
  have d1: "distinct (map fst [(''A'', Some ''1''), (''B'', Some ''2'')])" by simp
  have d2: "distinct (map fst [(''B'', Some ''2''), (''A'', Some ''1'')])" by simp
  have s: "set [(''A'', Some ''1''), (''B'', Some ''2'')] = set [(''B'', Some ''2''), (''A'', Some ''1'')]"
    by (simp add: insert_commute)
  from name_insertion_order [OF d1 d2 s, of "demo_env\<lparr>python := ''3.9''\<rparr>"] d1 d2 s
  show ?thesis by simp
qed

subsection \<open>Result records\<close>

lemma demo_env_name: "name demo_env = ''py3.6-requests2.9''"
  by (simp add: name_def env_name_def demo_env_def)

lemma demo_results_init:
  "Results_init demo_params demo_env ''abcdef1234567890'' 1384000000000 = Inr demo_results"
  by (simp add: Results_init_def demo_params_def demo_results_def demo_env_name path_join_def
      startswith_def endswith_def) (simp add: demo_env_def)

text \<open>
  Claim C9, amended. For a record whose machine name is not empty and does not end
  with the separator, and whose commit hash does not begin with the separator, the
  storage path is the machine name, the separator, the first 8 characters of the
  commit hash, a hyphen, the environment's name and \<open>.json\<close>. \<^verbatim>\<open>os.path.join\<close>
  inserts no separator after an empty machine name or one that ends with a separator,
  and an absolute second part replaces the first.
\<close>

theorem results_filename:
  assumes "Results_init params env commit_hash date = Inr r"
    and "params ''machine'' = Some machine"
    and "machine \<noteq> []" and "\<not> endswith machine ''/''" and "\<not> startswith commit_hash ''/''"
  shows "r_filename r = machine @ ''/'' @ take 8 commit_hash @ ''-'' @ name env @ ''.json''"
proof -
  have "\<not> startswith (take 8 commit_hash @ ''-'' @ name env @ ''.json'') ''/''"
    using assms(5) by (cases commit_hash) (auto simp: startswith_def)
  then show ?thesis using assms by (auto simp: Results_init_def path_join_def)
qed

theorem results_filename_witness:
  "Results_init demo_params demo_env ''abcdef1234567890'' 1384000000000 = Inr demo_results
   \<and> demo_params ''machine'' = Some ''bench1''
   \<and> ''bench1'' \<noteq> [] \<and> \<not> endswith ''bench1'' ''/'' \<and> \<not> startswith ''abcdef1234567890'' ''/''
   \<and> name demo_env = ''py3.6-requests2.9''
   \<and> r_filename demo_results = ''bench1/abcdef12-py3.6-requests2.9.json''"
proof -
  have p: "demo_params ''machine'' = Some ''bench1''" by (simp add: demo_params_def)
  have a: "''bench1'' \<noteq> []" "\<not> endswith ''bench1'' ''/''" "\<not> startswith ''abcdef1234567890'' ''/''"
    by (simp_all add: endswith_def startswith_def)
  from results_filename [OF demo_results_init p a] demo_results_init p a demo_env_name
  show ?thesis by simp
qed

theorem results_filename_counterexample:
  "\<exists>r. Results_init [''machine'' \<mapsto> ''''] demo_env ''abcdef1234567890'' 1384000000000 = Inr r
     \<and> r_filename r = ''abcdef12-py3.6-requests2.9.json''
     \<and> r_filename r \<noteq> '''' @ ''/'' @ take 8 ''abcdef1234567890'' @ ''-'' @ name demo_env @ ''.json''"
  by (simp add: Results_init_def demo_env_name path_join_def startswith_def endswith_def)

text \<open>
  Claim C8. With a compression and an encoding that their decoders invert, as zlib and
  base64 do, \<^verbatim>\<open>get_profile\<close> after \<^verbatim>\<open>add_profile\<close> for the same benchmark name returns
  the payload, whatever bytes it holds, none included.
\<close>

theorem profile_roundtrip:
  assumes "codec_inverse c"
  shows "get_profile c (add_profile c r benchmark_name profile) benchmark_name = Inr profile"
  using assms by (simp add: codec_inverse_def get_profile_def add_profile_def)

lemma demo_codec_inverse: "codec_inverse demo_codec"
  by (simp add: codec_inverse_def demo_codec_def)

theorem profile_roundtrip_witness:
  "codec_inverse demo_codec
   \<and> get_profile demo_codec (add_profile demo_codec demo_results ''time_sort'' []) ''time_sort'' = Inr []
   \<and> get_profile demo_codec (add_profile demo_codec demo_results ''time_sort'' ''cProfile'') ''time_sort''
       = Inr ''cProfile''"
  using profile_roundtrip [OF demo_codec_inverse, of demo_results "''time_sort''" "[]"]
    profile_roundtrip [OF demo_codec_inverse, of demo_results "''time_sort''" "''cProfile''"]
    demo_codec_inverse
  by simp

subsection \<open>The results store\<close>

text \<open>
  Claim C3, amended. Saving a result record under a results root and loading the file
  written gives, on a host that has an executable for the record's python version and
  has virtualenv, a record with the same results, profiles, commit hash, date and
  python version. On a host without the executable, or without virtualenv, the load
  raises \<^verbatim>\<open>RuntimeError\<close>; a record whose parameters have lost the machine raises
  \<^verbatim>\<open>KeyError\<close>.
\<close>

theorem save_load_roundtrip:
  "(which h (''python'' @ r_python r) \<noteq> [] \<and> virtualenv_source h \<noteq> None
      \<and> r_params r ''machine'' \<noteq> None \<longrightarrow>
      (\<exists>r'. load h migrate (save r result_dir st) (path_join result_dir (r_filename r)) = Inr r'
         \<and> r_results r' = r_results r \<and> r_profiles r' = r_profiles r
         \<and> r_commit_hash r' = r_commit_hash r \<and> r_date r' = r_date r
         \<and> r_python r' = r_python r))
   \<and> (which h (''python'' @ r_python r) = [] \<longrightarrow>
        load h migrate (save r result_dir st) (path_join result_dir (r_filename r))
          = Inl (RuntimeError (''No executable found for version '' @ r_python r)))
   \<and> (which h (''python'' @ r_python r) \<noteq> [] \<and> virtualenv_source h = None \<longrightarrow>
        load h migrate (save r result_dir st) (path_join result_dir (r_filename r))
          = Inl (RuntimeError ''virtualenv must be installed to run asv''))
   \<and> (which h (''python'' @ r_python r) \<noteq> [] \<and> virtualenv_source h \<noteq> None
        \<and> r_params r ''machine'' = None \<longrightarrow>
        load h migrate (save r result_dir st) (path_join result_dir (r_filename r))
          = Inl (KeyError ''machine''))"
proof -
  have stored: "load_json migrate (save r result_dir st) (path_join result_dir (r_filename r))
      api_version
    = Inr \<lparr>d_results = r_results r, d_params = r_params r,
           d_requirements = requirements (r_env r), d_commit_hash = r_commit_hash r,
           d_date = r_date r, d_python = r_python r, d_profiles = Some (r_profiles r)\<rparr>"
    by (simp add: save_def write_json_def load_json_def)
  show ?thesis
    unfolding load_def stored
    by (auto simp: Environment_init_def Results_init_def Let_def split: option.splits)
qed

theorem save_load_roundtrip_witness:
  "which demo_host (''python'' @ r_python (add_time demo_results ''time_sort'' 0.5)) \<noteq> []
   \<and> virtualenv_source demo_host \<noteq> None
   \<and> r_params (add_time demo_results ''time_sort'' 0.5) ''machine'' \<noteq> None
   \<and> path_join ''results'' (r_filename (add_time demo_results ''time_sort'' 0.5)) = demo_path
   \<and> (\<exists>r'. load demo_host demo_migrate (save (add_time demo_results ''time_sort'' 0.5) ''results'' Map.empty)
              demo_path = Inr r'
         \<and> r_results r' ''time_sort'' = Some 0.5
         \<and> r_profiles r' = Map.empty
         \<and> r_commit_hash r' = ''abcdef1234567890''
         \<and> r_date r' = 1384000000000
         \<and> r_python r' = ''3.6'')"
proof -
  have w: "which demo_host (''python'' @ r_python (add_time demo_results ''time_sort'' 0.5)) \<noteq> []"
    by (simp add: demo_host_def add_time_def demo_results_def)
  have v: "virtualenv_source demo_host \<noteq> None" by (simp add: demo_host_def)
  have m: "r_params (add_time demo_results ''time_sort'' 0.5) ''machine'' \<noteq> None"
    by (simp add: add_time_def demo_results_def demo_params_def)
  have p: "path_join ''results'' (r_filename (add_time demo_results ''time_sort'' 0.5)) = demo_path"
    by (simp add: add_time_def demo_results_def demo_path_def path_join_def startswith_def endswith_def)
  from save_load_roundtrip [of demo_host "add_time demo_results ''time_sort'' 0.5" demo_migrate
      "''results''" Map.empty] w v m
  obtain r' where
    "load demo_host demo_migrate (save (add_time demo_results ''time_sort'' 0.5) ''results'' Map.empty)
       demo_path = Inr r'"
    "r_results r' = r_results (add_time demo_results ''time_sort'' 0.5)"
    "r_profiles r' = r_profiles (add_time demo_results ''time_sort'' 0.5)"
    "r_commit_hash r' = r_commit_hash (add_time demo_results ''time_sort'' 0.5)"
    "r_date r' = r_date (add_time demo_results ''time_sort'' 0.5)"
    "r_python r' = r_python (add_time demo_results ''time_sort'' 0.5)"
    unfolding p by blast
  then have "load demo_host demo_migrate (save (add_time demo_results ''time_sort'' 0.5) ''results'' Map.empty)
              demo_path = Inr r'
         \<and> r_results r' ''time_sort'' = Some 0.5
         \<and> r_profiles r' = Map.empty
         \<and> r_commit_hash r' = ''abcdef1234567890''
         \<and> r_date r' = 1384000000000
         \<and> r_python r' = ''3.6''"
    by (simp add: add_time_def demo_results_def)
  then show ?thesis using w v m p by blast
qed

theorem save_load_other_host_counterexample:
  "Environment_init demo_host ''env'' ''3.6'' [(''requests'', Some ''2.9'')] = Inr demo_env
   \<and> Results_init demo_params demo_env ''abcdef1234567890'' 1384000000000 = Inr demo_results
   \<and> path_join ''results'' (r_filename (add_time demo_results ''time_sort'' 0.5)) = demo_path
   \<and> load (demo_host\<lparr>which := \<lambda>prog. []\<rparr>) demo_migrate
        (save (add_time demo_results ''time_sort'' 0.5) ''results'' Map.empty) demo_path
       = Inl (RuntimeError ''No executable found for version 3.6'')"
proof -
  have p: "path_join ''results'' (r_filename (add_time demo_results ''time_sort'' 0.5)) = demo_path"
    by (simp add: add_time_def demo_results_def demo_path_def path_join_def startswith_def endswith_def)
  have "load (demo_host\<lparr>which := \<lambda>prog. []\<rparr>) demo_migrate
        (save (add_time demo_results ''time_sort'' 0.5) ''results'' Map.empty) demo_path
       = Inl (RuntimeError ''No executable found for version 3.6'')"
    unfolding p [symmetric]
    by (simp add: load_def save_def write_json_def load_json_def Environment_init_def
        add_time_def demo_results_def)
  with demo_env_init demo_results_init p show ?thesis by simp
qed

lemma path_join_Nil: "path_join [] b = b"
  by (simp add: path_join_def)

text \<open>
  Claim C5, amended. For a well-formed persisted document, \<^verbatim>\<open>load\<close> constructs the
  environment of the record from the stored interpreter version and requirements, with
  an empty root directory, not set up and with no requirement installed. \<^verbatim>\<open>load\<close>
  runs no external command and changes no path. The construction asks the host for
  the interpreter's executables and for virtualenv, and \<^verbatim>\<open>load\<close> raises
  \<^verbatim>\<open>RuntimeError\<close> when the host has none or lacks virtualenv.
\<close>

theorem load_environment_placeholder:
  assumes "st p = Some (api_version, d)" and "d_params d ''machine'' \<noteq> None"
  shows "if which h (''python'' @ d_python d) = []
         then load h migrate st p = Inl (RuntimeError (''No executable found for version '' @ d_python d))
         else (case virtualenv_source h of
                 None \<Rightarrow> load h migrate st p = Inl (RuntimeError ''virtualenv must be installed to run asv'')
               | Some src \<Rightarrow>
                   (\<exists>r. load h migrate st p = Inr r
                      \<and> r_env r =
                          \<lparr>executable = which h (''python'' @ d_python d),
                           env_dir = [],
                           python = d_python d,
                           requirements = d_requirements d,
                           path = env_name (d_python d) (d_requirements d),
                           virtualenv_path = abspath h src,
                           is_setup = False,
                           requirements_installed = False\<rparr>))"
  using assms
  by (auto simp: load_def load_json_def Environment_init_def Results_init_def Let_def path_join_Nil
      split: option.splits)

theorem load_environment_placeholder_witness:
  "demo_store demo_path = Some (api_version, demo_document)
   \<and> d_params demo_document ''machine'' \<noteq> None
   \<and> which demo_host (''python'' @ d_python demo_document) \<noteq> []
   \<and> (\<exists>r. load demo_host demo_migrate demo_store demo_path = Inr r
         \<and> r_env r = demo_env\<lparr>env_dir := [], path := ''py3.6-requests2.9''\<rparr>)"
proof -
  have s: "demo_store demo_path = Some (api_version, demo_document)" by (simp add: demo_store_def)
  have m: "d_params demo_document ''machine'' \<noteq> None" by (simp add: demo_document_def demo_params_def)
  have w: "which demo_host (''python'' @ d_python demo_document) \<noteq> []"
    by (simp add: demo_host_def demo_document_def)
  have n: "env_name ''3.6'' [(''requests'', Some ''2.9'')] = ''py3.6-requests2.9''"
    by (simp add: env_name_def)
  from load_environment_placeholder
      [where st = demo_store and p = demo_path and d = demo_document and h = demo_host
         and migrate = demo_migrate, OF s m] w
  have "\<exists>r. load demo_host demo_migrate demo_store demo_path = Inr r
         \<and> r_env r = demo_env\<lparr>env_dir := [], path := ''py3.6-requests2.9''\<rparr>"
    by (simp add: demo_host_def demo_document_def demo_env_def n path_join_def startswith_def endswith_def)
  with s m w show ?thesis by blast
qed

theorem load_environment_host_counterexample:
  "demo_store demo_path = Some (api_version, demo_document)
   \<and> d_params demo_document ''machine'' = Some ''bench1''
   \<and> load (demo_host\<lparr>which := \<lambda>prog. []\<rparr>) demo_migrate demo_store demo_path
       = Inl (RuntimeError ''No executable found for version 3.6'')
   \<and> (\<exists>r. load demo_host demo_migrate demo_store demo_path = Inr r)"
  by (simp add: demo_store_def demo_document_def demo_params_def load_def load_json_def
      Environment_init_def Results_init_def demo_host_def Let_def)

subsection \<open>Environment lifecycle\<close>

lemma calls_mkdir: "calls (snd (mkdir w n)) = calls w"
  by (simp add: mkdir_def Let_def)

lemma calls_makedirs: "calls (snd (makedirs w n)) = calls w"
proof (induction w n rule: makedirs.induct)
  case (1 w n)
  show ?case
  proof (cases "fst (makedirs_split n) \<noteq> [] \<and> snd (makedirs_split n) \<noteq> []
         \<and> \<not> path_exists w (fst (makedirs_split n))")
    case True
    obtain r w' where m: "makedirs w (fst (makedirs_split n)) = (r, w')"
      by (cases "makedirs w (fst (makedirs_split n))")
    from "1.IH" True m have "calls w' = calls w" by simp
    then show ?thesis
      using True m calls_mkdir [of w' n]
      by (subst makedirs.simps) (auto split: option.splits)
  next
    case False
    then show ?thesis using calls_mkdir [of w n] by (subst makedirs.simps) auto
  qed
qed

lemma calls_ensure_env_dir: "calls (snd (ensure_env_dir e w)) = calls w"
  by (simp add: ensure_env_dir_def calls_makedirs)

lemma in_tree_self: "in_tree t t"
  by (simp add: in_tree_def)

lemma rstrip_sep_basic: "rstrip_sep [] = []" "rstrip_sep ''/'' = []"
  by (simp_all add: rstrip_sep_def)

lemma strip_sep_idem: "strip_sep (strip_sep p) = strip_sep p"
proof -
  have r: "rstrip_sep (rstrip_sep x) = rstrip_sep x" for x
    by (simp add: rstrip_sep_def)
  show ?thesis
    by (auto simp: strip_sep_def r rstrip_sep_basic)
qed

lemma removed_not_exists:
  assumes "\<not> path_exists w p \<or> strip_sep p \<noteq> ''/''"
  shows "\<not> path_exists (w\<lparr>nodes := (\<lambda>q. if in_tree (strip_sep p) q then None else nodes w q)\<rparr>) p"
  using assms
  by (auto simp: path_exists_def lookup_def in_tree_self strip_sep_idem split: option.splits node.splits)

text \<open>
  Claim C6, amended. When \<^verbatim>\<open>setup\<close> attempts the external create step and the step
  fails, the handler removes the tree at the environment's path if the path exists and
  the error of the step is raised to the caller; the step ran once and the environment
  is still not set up. When the removal goes through (the path is a directory and no
  entry of its tree is one that cannot be removed), nothing is left at or under the
  path and everything else is as the step left it. When the removal itself fails (a
  regular file at the path, or an entry that cannot be removed), its error is raised
  in place of the step's and the path still exists.
\<close>

theorem setup_failure_cleans_up:
  assumes "\<not> is_setup e"
    and "ensure_env_dir e w = (None, w1)"
    and "\<not> path_exists w1 (path e)"
    and "process h w1 (create_command e) = (False, out, ns, ls)"
    and "w2 = \<lparr>nodes = ns, locked = ls, calls = calls w @ [create_command e]\<rparr>"
  shows "(\<not> path_exists w2 (path e) \<longrightarrow> setup_env h e w = (Some ProcessError, e, w2))
       \<and> (path_exists w2 (path e) \<and> lookup w2 (path e) = Some Dir
            \<and> (\<forall>q\<in>ls. in_tree (strip_sep (path e)) q \<longrightarrow> ns q = None) \<longrightarrow>
            setup_env h e w =
              (Some ProcessError, e,
               w2\<lparr>nodes := (\<lambda>q. if in_tree (strip_sep (path e)) q then None else ns q)\<rparr>)
            \<and> \<not> path_exists
                 (w2\<lparr>nodes := (\<lambda>q. if in_tree (strip_sep (path e)) q then None else ns q)\<rparr>)
                 (path e))
       \<and> (path_exists w2 (path e) \<and> lookup w2 (path e) = Some File \<longrightarrow>
            setup_env h e w = (Some NotADirectoryError, e, w2))
       \<and> (path_exists w2 (path e) \<and> lookup w2 (path e) = Some Dir
            \<and> (\<exists>q\<in>ls. in_tree (strip_sep (path e)) q \<and> ns q \<noteq> None) \<longrightarrow>
            (\<exists>w'. setup_env h e w = (Some OSError, e, w')
               \<and> path_exists w' (path e) \<and> calls w' = calls w @ [create_command e]))"
proof -
  have c: "calls w1 = calls w" using calls_ensure_env_dir [of e w] assms(2) by simp
  have cc: "check_call h (create_command e) w1 = (Some ProcessError, w2)"
    using assms(4,5) c by (simp add: check_call_def)
  have s: "setup_env h e w =
      (if path_exists w2 (path e)
       then (case rmtree w2 (path e) of
               (Some err', w3) \<Rightarrow> (Some err', e, w3)
             | (None, w3) \<Rightarrow> (Some ProcessError, e, w3))
       else (Some ProcessError, e, w2))"
    using assms(1,2,3) cc by (simp add: setup_env_def)
  have root: "strip_sep (path e) \<noteq> ''/''"
    using assms(3)
    by (auto simp: path_exists_def lookup_def strip_sep_def rstrip_sep_basic split: if_splits)
  have n: "nodes w2 = ns" and l: "locked w2 = ls" using assms(5) by simp_all
  show ?thesis
  proof (intro conjI impI)
    assume "\<not> path_exists w2 (path e)"
    then show "setup_env h e w = (Some ProcessError, e, w2)" by (simp add: s)
  next
    assume a: "path_exists w2 (path e) \<and> lookup w2 (path e) = Some Dir
            \<and> (\<forall>q\<in>ls. in_tree (strip_sep (path e)) q \<longrightarrow> ns q = None)"
    then have "path e \<noteq> []" by (simp add: path_exists_def)
    with a have "rmtree w2 (path e)
        = (None, w2\<lparr>nodes := (\<lambda>q. if in_tree (strip_sep (path e)) q then None else nodes w2 q)\<rparr>)"
      by (auto simp: rmtree_def n l)
    then have "rmtree w2 (path e)
        = (None, w2\<lparr>nodes := (\<lambda>q. if in_tree (strip_sep (path e)) q then None else ns q)\<rparr>)"
      unfolding n .
    with a show "setup_env h e w =
              (Some ProcessError, e,
               w2\<lparr>nodes := (\<lambda>q. if in_tree (strip_sep (path e)) q then None else ns q)\<rparr>)"
      by (simp add: s)
  next
    assume "path_exists w2 (path e) \<and> lookup w2 (path e) = Some Dir
            \<and> (\<forall>q\<in>ls. in_tree (strip_sep (path e)) q \<longrightarrow> ns q = None)"
    show "\<not> path_exists
                 (w2\<lparr>nodes := (\<lambda>q. if in_tree (strip_sep (path e)) q then None else ns q)\<rparr>)
                 (path e)"
      using removed_not_exists [of w2 "path e"] root unfolding n by simp
  next
    assume a: "path_exists w2 (path e) \<and> lookup w2 (path e) = Some File"
    then have "path e \<noteq> []" by (simp add: path_exists_def)
    with a have "rmtree w2 (path e) = (Some NotADirectoryError, w2)"
      by (simp add: rmtree_def)
    with a show "setup_env h e w = (Some NotADirectoryError, e, w2)" by (simp add: s)
  next
    assume a: "path_exists w2 (path e) \<and> lookup w2 (path e) = Some Dir
            \<and> (\<exists>q\<in>ls. in_tree (strip_sep (path e)) q \<and> ns q \<noteq> None)"
    then have "path e \<noteq> []" by (simp add: path_exists_def)
    with a have "rmtree w2 (path e) = (Some OSError, w2)"
      by (auto simp: rmtree_def n l)
    with a have "setup_env h e w = (Some OSError, e, w2)" by (simp add: s)
    moreover have "calls w2 = calls w @ [create_command e]" using assms(5) by simp
    ultimately show "\<exists>w'. setup_env h e w = (Some OSError, e, w')
               \<and> path_exists w' (path e) \<and> calls w' = calls w @ [create_command e]"
      using a by blast
  qed
qed

lemma demo_ensure_env_dir:
  "ensure_env_dir demo_env demo_world = (None, demo_world\<lparr>nodes := [''env'' \<mapsto> Dir]\<rparr>)"
  by (simp add: ensure_env_dir_def path_exists_def lookup_def strip_sep_def rstrip_sep_def
      makedirs.simps makedirs_split_def path_split_def mkdir_def Let_def demo_env_def demo_world_def)

text \<open>
  With an empty root directory, as \<^verbatim>\<open>load\<close> constructs its environment,
  \<^verbatim>\<open>os.makedirs\<close> raises before the \<^verbatim>\<open>try\<close> block and no command runs.
\<close>

lemma setup_empty_env_dir:
  assumes "\<not> is_setup e" and "env_dir e = []"
  shows "setup_env h e w = (Some FileNotFoundError, e, w)"
  using assms
  by (simp add: setup_env_def ensure_env_dir_def path_exists_def makedirs.simps
      makedirs_split_def path_split_def rstrip_sep_def mkdir_def)

theorem setup_failure_cleans_up_witness:
  "\<not> is_setup demo_env
   \<and> ensure_env_dir demo_env demo_world = (None, demo_world\<lparr>nodes := [''env'' \<mapsto> Dir]\<rparr>)
   \<and> \<not> path_exists (demo_world\<lparr>nodes := [''env'' \<mapsto> Dir]\<rparr>) (path demo_env)
   \<and> process (demo_host\<lparr>process := failing_process\<rparr>) (demo_world\<lparr>nodes := [''env'' \<mapsto> Dir]\<rparr>)
         (create_command demo_env)
       = (False, [],
          [''env'' \<mapsto> Dir, ''env/py3.6-requests2.9'' \<mapsto> Dir, ''env/py3.6-requests2.9/bin'' \<mapsto> Dir],
          {})
   \<and> (\<exists>w'. setup_env (demo_host\<lparr>process := failing_process\<rparr>) demo_env demo_world
              = (Some ProcessError, demo_env, w')
         \<and> \<not> path_exists w' ''env/py3.6-requests2.9''
         \<and> nodes w' ''env/py3.6-requests2.9/bin'' = None
         \<and> nodes w' ''env'' = Some Dir
         \<and> calls w' = [create_command demo_env])"
proof -
  let ?w1 = "demo_world\<lparr>nodes := [''env'' \<mapsto> Dir]\<rparr>"
  let ?ns = "[''env'' \<mapsto> Dir, ''env/py3.6-requests2.9'' \<mapsto> Dir,
              ''env/py3.6-requests2.9/bin'' \<mapsto> Dir]"
  let ?w2 = "\<lparr>nodes = ?ns, locked = {}, calls = calls demo_world @ [create_command demo_env]\<rparr>"
  have p: "path demo_env = ''env/py3.6-requests2.9''" by (simp add: demo_env_def)
  have st: "strip_sep ''env/py3.6-requests2.9'' = ''env/py3.6-requests2.9''"
    by (simp add: strip_sep_def rstrip_sep_def)
  have a1: "\<not> is_setup demo_env" by (simp add: demo_env_def)
  have a3: "\<not> path_exists ?w1 (path demo_env)"
    unfolding p by (simp add: path_exists_def lookup_def st demo_world_def)
  have a4: "process (demo_host\<lparr>process := failing_process\<rparr>) ?w1 (create_command demo_env)
       = (False, [], ?ns, {})"
    by (simp add: create_command_def demo_world_def p)
  have e2: "path_exists ?w2 (path demo_env) \<and> lookup ?w2 (path demo_env) = Some Dir
            \<and> (\<forall>q\<in>{}. in_tree (strip_sep (path demo_env)) q \<longrightarrow> ?ns q = None)"
    unfolding p by (simp add: path_exists_def lookup_def st)
  from setup_failure_cleans_up [OF a1 demo_ensure_env_dir a3 a4 refl] e2
  have s: "setup_env (demo_host\<lparr>process := failing_process\<rparr>) demo_env demo_world =
              (Some ProcessError, demo_env,
               ?w2\<lparr>nodes := (\<lambda>q. if in_tree (strip_sep (path demo_env)) q then None else ?ns q)\<rparr>)"
    and x: "\<not> path_exists
                 (?w2\<lparr>nodes := (\<lambda>q. if in_tree (strip_sep (path demo_env)) q then None else ?ns q)\<rparr>)
                 (path demo_env)"
    by blast+
  have "nodes (?w2\<lparr>nodes := (\<lambda>q. if in_tree (strip_sep (path demo_env)) q then None else ?ns q)\<rparr>)
          ''env/py3.6-requests2.9/bin'' = None"
    and "nodes (?w2\<lparr>nodes := (\<lambda>q. if in_tree (strip_sep (path demo_env)) q then None else ?ns q)\<rparr>)
          ''env'' = Some Dir"
    and "calls (?w2\<lparr>nodes := (\<lambda>q. if in_tree (strip_sep (path demo_env)) q then None else ?ns q)\<rparr>)
          = [create_command demo_env]"
    unfolding p st by (simp_all add: in_tree_def startswith_def endswith_def demo_world_def)
  with s x have "\<exists>w'. setup_env (demo_host\<lparr>process := failing_process\<rparr>) demo_env demo_world
              = (Some ProcessError, demo_env, w')
         \<and> \<not> path_exists w' ''env/py3.6-requests2.9''
         \<and> nodes w' ''env/py3.6-requests2.9/bin'' = None
         \<and> nodes w' ''env'' = Some Dir
         \<and> calls w' = [create_command demo_env]"
    unfolding p by blast
  with a1 demo_ensure_env_dir a3 a4 show ?thesis by blast
qed

theorem setup_failure_unremovable_counterexample:
  "\<not> is_setup demo_env
   \<and> ensure_env_dir demo_env demo_world = (None, demo_world\<lparr>nodes := [''env'' \<mapsto> Dir]\<rparr>)
   \<and> \<not> path_exists (demo_world\<lparr>nodes := [''env'' \<mapsto> Dir]\<rparr>) (path demo_env)
   \<and> fst (process (demo_host\<lparr>process := locking_process\<rparr>) (demo_world\<lparr>nodes := [''env'' \<mapsto> Dir]\<rparr>)
         (create_command demo_env)) = False
   \<and> (\<exists>w'. setup_env (demo_host\<lparr>process := locking_process\<rparr>) demo_env demo_world
              = (Some OSError, demo_env, w')
         \<and> path_exists w' (path demo_env)
         \<and> nodes w' (path demo_env) = Some Dir)"
proof -
  have p: "path demo_env = ''env/py3.6-requests2.9''" by (simp add: demo_env_def)
  have st: "strip_sep ''env/py3.6-requests2.9'' = ''env/py3.6-requests2.9''"
    by (simp add: strip_sep_def rstrip_sep_def)
  have a1: "\<not> is_setup demo_env" by (simp add: demo_env_def)
  have a3: "\<not> path_exists (demo_world\<lparr>nodes := [''env'' \<mapsto> Dir]\<rparr>) (path demo_env)"
    unfolding p by (simp add: path_exists_def lookup_def st demo_world_def)
  have a4: "fst (process (demo_host\<lparr>process := locking_process\<rparr>)
         (demo_world\<lparr>nodes := [''env'' \<mapsto> Dir]\<rparr>) (create_command demo_env)) = False"
    by (simp add: create_command_def)
  have "\<exists>w'. setup_env (demo_host\<lparr>process := locking_process\<rparr>) demo_env demo_world
              = (Some OSError, demo_env, w')
         \<and> path_exists w' (path demo_env)
         \<and> nodes w' (path demo_env) = Some Dir"
    using a1 a3 unfolding setup_env_def demo_ensure_env_dir
    by (simp add: check_call_def create_command_def rmtree_def path_exists_def lookup_def p st
        in_tree_def startswith_def endswith_def demo_world_def)
  with a1 demo_ensure_env_dir a3 a4 show ?thesis by blast
qed

lemma setup_env_None:
  assumes "setup_env h e w = (None, e1, w1)"
  shows "is_setup e1 \<and> path e1 = path e \<and> requirements e1 = requirements e
         \<and> requirements_installed e1 = requirements_installed e
         \<and> calls w1 =
             (if is_setup e
                 \<or> path_exists (snd (ensure_env_dir e w)) (path e)
              then calls w else calls w @ [create_command e])"
proof (cases "is_setup e")
  case True
  with assms show ?thesis by (simp add: setup_env_def)
next
  case False
  obtain r0 w0 where en: "ensure_env_dir e w = (r0, w0)" by (cases "ensure_env_dir e w")
  have c0: "calls w0 = calls w" using calls_ensure_env_dir [of e w] en by simp
  from assms False en have r0: "r0 = None"
    by (cases r0) (auto simp: setup_env_def)
  show ?thesis
  proof (cases "path_exists w0 (path e)")
    case True
    with assms False en r0 c0 show ?thesis by (auto simp: setup_env_def)
  next
    case nex: False
    obtain ok out ns ls where pr: "process h w0 (create_command e) = (ok, out, ns, ls)"
      by (cases "process h w0 (create_command e)")
    from assms False en r0 nex pr have "ok"
      by (cases ok) (auto simp: setup_env_def check_call_def split: if_splits prod.splits option.splits)
    with assms False en r0 nex pr c0 show ?thesis
      by (auto simp: setup_env_def check_call_def)
  qed
qed

lemma install_requirements_None:
  assumes "install_requirements h e w = (None, e1, w1)"
  shows "requirements_installed e1 \<and> path e1 = path e"
  using assms setup_env_None [of h e w]
  by (auto simp: install_requirements_def split: if_splits prod.splits option.splits)

lemma uninstall_calls:
  "\<exists>w'. uninstall h e package w = (None, w')
     \<and> calls w' = calls w @ [[Arg (path_join (path_join (path e) ''bin'') ''pip''),
                               Arg ''uninstall'', Arg ''-y'', Arg package]]"
  by (simp add: uninstall_def run_executable_def check_output_def split: prod.splits)

lemma install_calls:
  "\<exists>err w'. install h e package True w = (err, w')
     \<and> calls w' = calls w @ [[Arg (path_join (path_join (path e) ''bin'') ''pip''),
                               Arg ''install'', Arg ''-e'', Arg package]]"
  by (simp add: install_def run_executable_def check_output_def split: prod.splits)

lemma install_project_None:
  assumes "install_project h e c w = (None, e1, w1)"
  shows "requirements_installed e1"
  using assms install_requirements_None [of h e w]
  by (auto simp: install_project_def split: prod.splits option.splits)

lemma install_project_again:
  assumes "requirements_installed e"
  shows "\<exists>err w'. install_project h e c w = (err, e, w')
     \<and> calls w' = calls w @
         [[Arg (path_join (path_join (path e) ''bin'') ''pip''),
           Arg ''uninstall'', Arg ''-y'', Arg (conf_project c)],
          [Arg (path_join (path_join (path e) ''bin'') ''pip''),
           Arg ''install'', Arg ''-e'', Arg (abspath h (conf_project c))]]"
proof -
  have ir: "install_requirements h e w = (None, e, w)"
    using assms by (simp add: install_requirements_def)
  obtain w2 where u: "uninstall h e (conf_project c) w = (None, w2)"
    and cu: "calls w2 = calls w @ [[Arg (path_join (path_join (path e) ''bin'') ''pip''),
                               Arg ''uninstall'', Arg ''-y'', Arg (conf_project c)]]"
    using uninstall_calls by blast
  obtain err w3 where i: "install h e (abspath h (conf_project c)) True w2 = (err, w3)"
    and ci: "calls w3 = calls w2 @ [[Arg (path_join (path_join (path e) ''bin'') ''pip''),
                               Arg ''install'', Arg ''-e'', Arg (abspath h (conf_project c))]]"
    using install_calls by blast
  have "install_project h e c w = (err, e, w3)"
    by (simp add: install_project_def ir u i)
  then show ?thesis using cu ci by simp
qed

text \<open>
  Claim C2, amended. \<^verbatim>\<open>setup\<close> and \<^verbatim>\<open>install_requirements\<close>, invoked again after they
  completed, return at once and change nothing; the first \<^verbatim>\<open>setup\<close> ran the external
  create step once if the environment's directory did not exist, and not at all if
  it did. \<^verbatim>\<open>install_project\<close>, invoked again after it completed, does not provision
  or install the requirements again, and runs the uninstall and the editable install
  of the project once more.
\<close>

theorem lifecycle_repeat:
  "(setup_env h e w = (None, e1, w1) \<longrightarrow>
      setup_env h e1 w1 = (None, e1, w1)
      \<and> calls w1 =
          (if is_setup e
              \<or> path_exists (snd (ensure_env_dir e w)) (path e)
           then calls w else calls w @ [create_command e]))
   \<and> (install_requirements h e w = (None, e2, w2) \<longrightarrow>
        install_requirements h e2 w2 = (None, e2, w2))
   \<and> (install_project h e c w = (None, e3, w3) \<longrightarrow>
        (\<exists>err w4. install_project h e3 c w3 = (err, e3, w4)
           \<and> calls w4 = calls w3 @
               [[Arg (path_join (path_join (path e3) ''bin'') ''pip''),
                 Arg ''uninstall'', Arg ''-y'', Arg (conf_project c)],
                [Arg (path_join (path_join (path e3) ''bin'') ''pip''),
                 Arg ''install'', Arg ''-e'', Arg (abspath h (conf_project c))]]))"
proof (intro conjI impI)
  assume a: "setup_env h e w = (None, e1, w1)"
  from setup_env_None [OF a] show "setup_env h e1 w1 = (None, e1, w1)"
    by (simp add: setup_env_def)
  from setup_env_None [OF a] show "calls w1 =
          (if is_setup e
              \<or> path_exists (snd (ensure_env_dir e w)) (path e)
           then calls w else calls w @ [create_command e])" by blast
next
  assume "install_requirements h e w = (None, e2, w2)"
  from install_requirements_None [OF this] show "install_requirements h e2 w2 = (None, e2, w2)"
    by (simp add: install_requirements_def)
next
  assume "install_project h e c w = (None, e3, w3)"
  from install_project_again [OF install_project_None [OF this]]
  show "\<exists>err w4. install_project h e3 c w3 = (err, e3, w4)
           \<and> calls w4 = calls w3 @
               [[Arg (path_join (path_join (path e3) ''bin'') ''pip''),
                 Arg ''uninstall'', Arg ''-y'', Arg (conf_project c)],
                [Arg (path_join (path_join (path e3) ''bin'') ''pip''),
                 Arg ''install'', Arg ''-e'', Arg (abspath h (conf_project c))]]" .
qed

lemmas demo_lifecycle_defs =
  install_project_def install_requirements_def setup_env_def Let_def
  path_exists_def lookup_def strip_sep_def rstrip_sep_def
  ensure_env_dir_def makedirs.simps makedirs_split_def path_split_def mkdir_def
  check_call_def check_output_def run_executable_def
  upgrade_def uninstall_def install_def create_command_def
  demo_host_def demo_env_def demo_conf_def demo_world_def
  demo_world_setup_def demo_world_requirements_def demo_world_project_def demo_pip_def
  path_join_def startswith_def endswith_def

lemma demo_setup:
  "setup_env demo_host demo_env demo_world = (None, demo_env\<lparr>is_setup := True\<rparr>, demo_world_setup)"
  by (simp add: demo_lifecycle_defs)

lemma demo_install_requirements:
  "install_requirements demo_host demo_env demo_world =
     (None, demo_env\<lparr>is_setup := True, requirements_installed := True\<rparr>, demo_world_requirements)"
  by (simp add: demo_lifecycle_defs)

lemma demo_install_project:
  "install_project demo_host demo_env demo_conf demo_world =
     (None, demo_env\<lparr>is_setup := True, requirements_installed := True\<rparr>, demo_world_project)"
  by (simp add: demo_lifecycle_defs)

theorem lifecycle_repeat_witness:
  "setup_env demo_host demo_env demo_world = (None, demo_env\<lparr>is_setup := True\<rparr>, demo_world_setup)
   \<and> setup_env demo_host (demo_env\<lparr>is_setup := True\<rparr>) demo_world_setup
       = (None, demo_env\<lparr>is_setup := True\<rparr>, demo_world_setup)
   \<and> calls demo_world_setup = [create_command demo_env]
   \<and> install_requirements demo_host demo_env demo_world
       = (None, demo_env\<lparr>is_setup := True, requirements_installed := True\<rparr>, demo_world_requirements)
   \<and> install_requirements demo_host (demo_env\<lparr>is_setup := True, requirements_installed := True\<rparr>)
         demo_world_requirements
       = (None, demo_env\<lparr>is_setup := True, requirements_installed := True\<rparr>, demo_world_requirements)
   \<and> install_project demo_host demo_env demo_conf demo_world
       = (None, demo_env\<lparr>is_setup := True, requirements_installed := True\<rparr>, demo_world_project)
   \<and> (\<exists>err w4.
         install_project demo_host (demo_env\<lparr>is_setup := True, requirements_installed := True\<rparr>)
             demo_conf demo_world_project
           = (err, demo_env\<lparr>is_setup := True, requirements_installed := True\<rparr>, w4)
         \<and> calls w4 = calls demo_world_project @
              [demo_pip [''uninstall'', ''-y'', ''project''],
               demo_pip [''install'', ''-e'', ''/home/asv/project'']])"
proof -
  note t = lifecycle_repeat [of demo_host demo_env demo_world "demo_env\<lparr>is_setup := True\<rparr>"
      demo_world_setup "demo_env\<lparr>is_setup := True, requirements_installed := True\<rparr>"
      demo_world_requirements demo_conf
      "demo_env\<lparr>is_setup := True, requirements_installed := True\<rparr>" demo_world_project]
  from t demo_setup have s: "setup_env demo_host (demo_env\<lparr>is_setup := True\<rparr>) demo_world_setup
       = (None, demo_env\<lparr>is_setup := True\<rparr>, demo_world_setup)" by blast
  from t demo_install_requirements have r:
    "install_requirements demo_host (demo_env\<lparr>is_setup := True, requirements_installed := True\<rparr>)
         demo_world_requirements
       = (None, demo_env\<lparr>is_setup := True, requirements_installed := True\<rparr>, demo_world_requirements)"
    by blast
  from t demo_install_project obtain err w4 where
    "install_project demo_host (demo_env\<lparr>is_setup := True, requirements_installed := True\<rparr>)
             demo_conf demo_world_project
           = (err, demo_env\<lparr>is_setup := True, requirements_installed := True\<rparr>, w4)"
    "calls w4 = calls demo_world_project @
       [[Arg (path_join (path_join (path (demo_env\<lparr>is_setup := True, requirements_installed := True\<rparr>)) ''bin'') ''pip''),
         Arg ''uninstall'', Arg ''-y'', Arg (conf_project demo_conf)],
        [Arg (path_join (path_join (path (demo_env\<lparr>is_setup := True, requirements_installed := True\<rparr>)) ''bin'') ''pip''),
         Arg ''install'', Arg ''-e'', Arg (abspath demo_host (conf_project demo_conf))]]"
    by blast
  then have p: "\<exists>err w4.
         install_project demo_host (demo_env\<lparr>is_setup := True, requirements_installed := True\<rparr>)
             demo_conf demo_world_project
           = (err, demo_env\<lparr>is_setup := True, requirements_installed := True\<rparr>, w4)
         \<and> calls w4 = calls demo_world_project @
              [demo_pip [''uninstall'', ''-y'', ''project''],
               demo_pip [''install'', ''-e'', ''/home/asv/project'']]"
    by (simp add: demo_pip_def demo_env_def demo_conf_def demo_host_def path_join_def
        startswith_def endswith_def)
  have c: "calls demo_world_setup = [create_command demo_env]" by (simp add: demo_world_setup_def)
  from demo_setup s c demo_install_requirements r demo_install_project p show ?thesis by blast
qed

theorem install_project_repeat_counterexample:
  "install_project demo_host demo_env demo_conf demo_world
     = (None, demo_env\<lparr>is_setup := True, requirements_installed := True\<rparr>, demo_world_project)
   \<and> install_project demo_host (demo_env\<lparr>is_setup := True, requirements_installed := True\<rparr>)
        demo_conf demo_world_project
     = (None, demo_env\<lparr>is_setup := True, requirements_installed := True\<rparr>,
        demo_world_project\<lparr>calls := calls demo_world_project @
          [demo_pip [''uninstall'', ''-y'', ''project''],
           demo_pip [''install'', ''-e'', ''/home/asv/project'']]\<rparr>)
   \<and> length (calls demo_world_project) = 5
   \<and> demo_world_project\<lparr>calls := calls demo_world_project @
          [demo_pip [''uninstall'', ''-y'', ''project''],
           demo_pip [''install'', ''-e'', ''/home/asv/project'']]\<rparr> \<noteq> demo_world_project"
  by (simp add: demo_lifecycle_defs)

subsection \<open>The results index\<close>

lemma latest_fold:
  "foldl latest_step (d0, h0) xs = (d, h) \<Longrightarrow>
     d0 \<le> d \<and> (\<forall>(c, x)\<in>set xs. x \<le> d)
     \<and> ((d, h) = (d0, h0) \<or> d0 < d \<and> (h, d) \<in> set xs)"
proof (induction xs arbitrary: d0 h0)
  case Nil
  then show ?case by simp
next
  case (Cons a xs)
  obtain c x where a: "a = (c, x)" by (cases a)
  show ?case
  proof (cases "x > d0")
    case True
    with Cons.prems a have "foldl latest_step (x, c) xs = (d, h)" by simp
    from Cons.IH [OF this] True a show ?thesis by auto
  next
    case False
    with Cons.prems a have "foldl latest_step (d0, h0) xs = (d, h)" by simp
    from Cons.IH [OF this] False a show ?thesis by auto
  qed
qed

lemma latest_loop_cases:
  "(\<forall>(c, x)\<in>set pairs. x \<le> 0) \<and> latest_loop pairs = (0, [])
   \<or> (\<exists>(c, x)\<in>set pairs. 0 < x) \<and> 0 < fst (latest_loop pairs)
       \<and> (snd (latest_loop pairs), fst (latest_loop pairs)) \<in> set pairs
       \<and> fst (latest_loop pairs) = Max (snd ` set pairs)"
proof -
  obtain d h where l: "latest_loop pairs = (d, h)" by (cases "latest_loop pairs")
  then have f: "foldl latest_step (0, []) pairs = (d, h)" by (simp add: latest_loop_def)
  note lf = latest_fold [OF f]
  show ?thesis
  proof (cases "(d, h) = (0, [])")
    case True
    with lf l show ?thesis by auto
  next
    case False
    with lf have pos: "0 < d" and mem: "(h, d) \<in> set pairs" and ub: "\<forall>(c, x)\<in>set pairs. x \<le> d"
      by auto
    have "Max (snd ` set pairs) = d"
    proof (rule Max_eqI)
      show "finite (snd ` set pairs)" by simp
      show "\<And>y. y \<in> snd ` set pairs \<Longrightarrow> y \<le> d" using ub by auto
      show "d \<in> snd ` set pairs" using mem by force
    qed
    with pos mem l show ?thesis by auto
  qed
qed

text \<open>
  Claim C7, amended. When the machine's records load, \<^verbatim>\<open>find_latest_result_hash\<close>
  returns a commit hash paired with the maximum date among them if some record's date
  is greater than zero, and the empty string if none is, in particular when there are
  no records; on \<open>[(h1, 100), (h2, 300), (h3, 200)]\<close> the loop ends with \<open>h2\<close>.
\<close>

theorem find_latest_result_hash_max:
  assumes "iter_existing_hashes h migrate st (path_join root' machine) = Inr pairs"
  shows "(\<exists>hash. find_latest_result_hash h migrate st machine root' = Inr hash
            \<and> (if \<exists>(c, d)\<in>set pairs. 0 < d
                then (hash, Max (snd ` set pairs)) \<in> set pairs
                else hash = []))
         \<and> snd (latest_loop [(h1, 100), (h2, 300), (h3, 200)]) = h2"
proof -
  have r: "find_latest_result_hash h migrate st machine root' = Inr (snd (latest_loop pairs))"
    using assms by (simp add: find_latest_result_hash_def)
  have "\<exists>hash. find_latest_result_hash h migrate st machine root' = Inr hash
            \<and> (if \<exists>(c, d)\<in>set pairs. 0 < d
                then (hash, Max (snd ` set pairs)) \<in> set pairs
                else hash = [])"
    using latest_loop_cases [of pairs] unfolding r by auto
  moreover have "snd (latest_loop [(h1, 100), (h2, 300), (h3, 200)]) = h2"
    by (simp add: latest_loop_def)
  ultimately show ?thesis by blast
qed

text \<open>
  Claim C10. \<^verbatim>\<open>find_latest_result_hash\<close> only selects a record whose date is greater
  than zero: when every record's date is at most zero it returns the empty string,
  and a hash it returns that is not empty is paired with a date greater than zero.
\<close>

theorem find_latest_only_positive:
  assumes "iter_existing_hashes h migrate st (path_join root' machine) = Inr pairs"
  shows "\<exists>hash. find_latest_result_hash h migrate st machine root' = Inr hash
           \<and> ((\<forall>(c, d)\<in>set pairs. d \<le> 0) \<longrightarrow> hash = [])
           \<and> (hash = [] \<or> (\<exists>d. 0 < d \<and> (hash, d) \<in> set pairs))"
proof -
  have r: "find_latest_result_hash h migrate st machine root' = Inr (snd (latest_loop pairs))"
    using assms by (simp add: find_latest_result_hash_def)
  from latest_loop_cases [of pairs] show ?thesis unfolding r by auto
qed

lemma index_paths:
  "result_paths index_host (path_join ''results'' ''bench1'')
     = [''results/bench1/h1.json'', ''results/bench1/h2.json'', ''results/bench1/h3.json'']"
  by (simp add: result_paths_def index_host_def skip_files_def path_join_def startswith_def
      endswith_def)

lemma index_hashes:
  "iter_existing_hashes index_host demo_migrate (index_store d1 d2 d3) (path_join ''results'' ''bench1'')
     = Inr [(''h1'', d1), (''h2'', d2), (''h3'', d3)]"
  unfolding iter_existing_hashes_def iter_results_def index_paths
  by (simp add: load_def load_json_def index_store_def Environment_init_def Results_init_def
      index_host_def demo_host_def demo_document_def demo_params_def Let_def)

theorem find_latest_result_hash_max_witness:
  "iter_existing_hashes index_host demo_migrate (index_store 100 300 200) (path_join ''results'' ''bench1'')
     = Inr [(''h1'', 100), (''h2'', 300), (''h3'', 200)]
   \<and> find_latest_result_hash index_host demo_migrate (index_store 100 300 200) ''bench1'' ''results''
       = Inr ''h2''"
proof -
  note i = index_hashes [of 100 300 200]
  from find_latest_result_hash_max [OF i] obtain hash where
    f: "find_latest_result_hash index_host demo_migrate (index_store 100 300 200) ''bench1'' ''results''
          = Inr hash"
    and m: "if \<exists>(c, d)\<in>set [(''h1'', 100), (''h2'', 300), (''h3'', 200 :: int)]. 0 < d
            then (hash, Max (snd ` set [(''h1'', 100), (''h2'', 300), (''h3'', 200 :: int)]))
                   \<in> set [(''h1'', 100), (''h2'', 300), (''h3'', 200)]
            else hash = []"
    by blast
  from m have "hash = ''h2''" by simp
  with f i show ?thesis by simp
qed

theorem find_latest_result_hash_epoch_counterexample:
  "iter_existing_hashes index_host demo_migrate (index_store 0 0 0) (path_join ''results'' ''bench1'')
     = Inr [(''h1'', 0), (''h2'', 0), (''h3'', 0)]
   \<and> Max (snd ` set [(''h1'', 0), (''h2'', 0), (''h3'', 0 :: int)]) = 0
   \<and> find_latest_result_hash index_host demo_migrate (index_store 0 0 0) ''bench1'' ''results'' = Inr []
   \<and> ([], 0) \<notin> set [(''h1'', 0), (''h2'', 0), (''h3'', 0 :: int)]"
  by (simp add: index_hashes find_latest_result_hash_def latest_loop_def)

theorem find_latest_only_positive_witness:
  "iter_existing_hashes index_host demo_migrate (index_store 0 (- 86400000) 0)
       (path_join ''results'' ''bench1'')
     = Inr [(''h1'', 0), (''h2'', - 86400000), (''h3'', 0)]
   \<and> find_latest_result_hash index_host demo_migrate (index_store 0 (- 86400000) 0) ''bench1'' ''results''
       = Inr []"
proof -
  note i = index_hashes [of 0 "- 86400000" 0]
  from find_latest_only_positive [OF i] obtain hash where
    f: "find_latest_result_hash index_host demo_migrate (index_store 0 (- 86400000) 0) ''bench1'' ''results''
          = Inr hash"
    and m: "(\<forall>(c, d)\<in>set [(''h1'', 0), (''h2'', - 86400000), (''h3'', 0 :: int)]. d \<le> 0) \<longrightarrow> hash = []"
    by blast
  from m have "hash = []" by simp
  with f i show ?thesis by simp
qed

end
